theory Spec2Isabelle
  imports Main "HOL-Library.Char_ord" "HOL-Library.List_Lexorder"
begin

section \<open>Data model (music/models.py, accounts/models.py)\<close>

text \<open>
  Every model class is a record of the columns the views read or write; a table is the
  list of its rows in the order the engine scans them. Primary keys are the integers of
  Django's automatic \<open>id\<close> column, timestamps are integers (a point in time), and
  \<open>IntegerField\<close> counters are Python integers. Columns that no modelled view reads
  (audio file, duration, lyrics, images, descriptions) are left out.
\<close>

record User =
  user_id :: nat
  username :: string
  is_staff :: bool

record Genre =
  genre_pk :: nat
  genre_name :: string

record Artist =
  artist_pk :: nat
  artist_name :: string

record Album =
  album_pk :: nat
  album_title :: string
  album_artist :: nat

record Song =
  pk :: nat
  title :: string
  artist :: nat
  album :: "nat option"
  genre :: "nat option"
  uploaded_by :: nat
  upload_date :: int
  play_count :: int
  download_count :: int
  is_public :: bool
  is_featured :: bool

record Playlist =
  playlist_pk :: nat
  playlist_name :: string
  playlist_user :: nat
  playlist_songs :: "nat list"
  playlist_is_public :: bool
  playlist_is_collaborative :: bool
  playlist_created_at :: int

record Favorite =
  favorite_pk :: nat
  favorite_user :: nat
  favorite_song :: nat
  added_at :: int

record PlayHistory =
  history_pk :: nat
  history_user :: nat
  history_song :: nat
  played_at :: int
  completed :: bool

record Rating =
  rating_pk :: nat
  rating_song :: nat
  rating_user :: nat
  rating :: int
  rating_created_at :: int
  rating_updated_at :: int

text \<open>The relational store: one table per model, named after the model's manager.\<close>

record db =
  Song_objects :: "Song list"
  Artist_objects :: "Artist list"
  Album_objects :: "Album list"
  Genre_objects :: "Genre list"
  Playlist_objects :: "Playlist list"
  Favorite_objects :: "Favorite list"
  Rating_objects :: "Rating list"
  PlayHistory_objects :: "PlayHistory list"





section \<open>Python's text functions\<close>

text \<open>
  \<open>str.strip()\<close> and \<open>int(str)\<close> on ASCII text: white space is stripped from both
  ends; \<open>int\<close> then reads an optional sign and decimal digits, single underscores
  allowed between digits.
\<close>

definition py_isspace :: "char \<Rightarrow> bool" where
  "py_isspace c = ((of_char c :: nat) \<in> {9, 10, 11, 12, 13, 28, 29, 30, 31, 32})"

definition py_strip :: "string \<Rightarrow> string" where
  "py_strip s = rev (dropWhile py_isspace (rev (dropWhile py_isspace s)))"

definition is_digit :: "char \<Rightarrow> bool" where
  "is_digit c = (48 \<le> (of_char c :: nat) \<and> (of_char c :: nat) \<le> 57)"

fun py_digits :: "string \<Rightarrow> nat \<Rightarrow> nat option" where
  "py_digits [] acc = Some acc"
| "py_digits (c # cs) acc =
     (if is_digit c then py_digits cs (10 * acc + (of_char c - 48))
      else if c = CHR ''_'' \<and> cs \<noteq> [] \<and> is_digit (hd cs) then py_digits cs acc
      else None)"

definition py_nat :: "string \<Rightarrow> nat option" where
  "py_nat s = (case s of [] \<Rightarrow> None | c # cs \<Rightarrow> if is_digit c then py_digits s 0 else None)"

definition py_int :: "string \<Rightarrow> int option" where
  "py_int s =
     (case py_strip s of
        [] \<Rightarrow> None
      | c # cs \<Rightarrow>
          if c = CHR ''-'' then map_option (\<lambda>n. - int n) (py_nat cs)
          else if c = CHR ''+'' then map_option int (py_nat cs)
          else map_option int (py_nat (c # cs)))"

section \<open>The object-relational layer the views call\<close>

text \<open>
  An \<open>INSERT\<close> gives the new row the next free identifier of its table.
\<close>

definition new_pk :: "nat list \<Rightarrow> nat" where
  "new_pk pks = Suc (foldr max pks 0)"

datatype orm_error = DoesNotExist | MultipleObjectsReturned | IntegrityError

text \<open>
  \<open>QuerySet.get\<close>: the one row that matches, \<open>DoesNotExist\<close> when none does,
  \<open>MultipleObjectsReturned\<close> when several do.
\<close>

definition get_row :: "('a \<Rightarrow> bool) \<Rightarrow> 'a list \<Rightarrow> orm_error + 'a" where
  "get_row P rows =
     (case filter P rows of
        [] \<Rightarrow> Inl DoesNotExist
      | [r] \<Rightarrow> Inr r
      | _ \<Rightarrow> Inl MultipleObjectsReturned)"

text \<open>
  \<open>get_object_or_404(Model, pk=pk)\<close>: the row with that primary key, or \<open>Http404\<close>
  (here \<open>None\<close>). The primary key is a key of the table, so the lookup reads the first
  row that carries it.
\<close>

definition get_song :: "db \<Rightarrow> nat \<Rightarrow> Song option" where
  "get_song st k = find (\<lambda>s. pk s = k) (Song_objects st)"

definition get_playlist :: "db \<Rightarrow> nat \<Rightarrow> Playlist option" where
  "get_playlist st k = find (\<lambda>p. playlist_pk p = k) (Playlist_objects st)"

text \<open>\<open>get_object_or_404(Playlist, pk=pk, user=request.user)\<close>.\<close>

definition get_playlist_of :: "db \<Rightarrow> nat \<Rightarrow> User \<Rightarrow> Playlist option" where
  "get_playlist_of st k u =
     find (\<lambda>p. playlist_pk p = k \<and> playlist_user p = user_id u) (Playlist_objects st)"

section \<open>Visibility (the filter of song_list, search, artist_detail, album_detail)\<close>

text \<open>\<open>Q(is_public=True) | Q(uploaded_by=request.user)\<close>.\<close>

definition visible_to :: "User \<Rightarrow> Song \<Rightarrow> bool" where
  "visible_to u s = (is_public s \<or> uploaded_by s = user_id u)"

section \<open>Song listing (views.song_list)\<close>

datatype view_error = ValueError | PaginatorRaised | AttributeError

text \<open>
  A filter parameter of the query string (\<open>request.GET.get('genre')\<close>): absent or empty
  means no filter (\<open>if genre_id:\<close>); otherwise \<open>filter(genre_id=genre_id)\<close> converts the
  text with the interpreter's \<open>int\<close>, which raises \<open>ValueError\<close> on text that is not a
  number. The conversion \<open>int_of\<close> is a parameter of the model (\<open>None\<close> where \<open>int\<close>
  raises); \<open>py_int\<close> below is its reading of ASCII text.
\<close>

definition id_filter :: "(string \<Rightarrow> int option) \<Rightarrow> string option \<Rightarrow> view_error + int option" where
  "id_filter int_of p =
     (case p of
        None \<Rightarrow> Inr None
      | Some s \<Rightarrow>
          if s = [] then Inr None
          else (case int_of s of None \<Rightarrow> Inl ValueError | Some i \<Rightarrow> Inr (Some i)))"

definition valid_sorts :: "string list" where
  "valid_sorts = [''-upload_date'', ''title'', ''-play_count'', ''artist__name'']"

text \<open>\<open>Song.Meta.ordering = ['-upload_date']\<close>: the order of a query with no \<open>order_by\<close>.\<close>

definition Song_Meta_ordering :: string where
  "Song_Meta_ordering = ''-upload_date''"

text \<open>
  The name of a song's artist, through the foreign key \<open>Song.artist\<close> (not null, and
  enforced by the store, so the join of \<open>artist__name\<close> drops no song).
\<close>

definition artist_name_of :: "db \<Rightarrow> Song \<Rightarrow> string" where
  "artist_name_of st s =
     (case find (\<lambda>a. artist_pk a = artist s) (Artist_objects st) of
        None \<Rightarrow> []
      | Some a \<Rightarrow> artist_name a)"

text \<open>
  \<open>QuerySet.order_by\<close> on the keys the view can pass. SQL leaves the order of rows with
  equal keys to the engine; the model keeps them in scan order (a stable sort).
\<close>

definition order_by :: "db \<Rightarrow> string \<Rightarrow> Song list \<Rightarrow> Song list" where
  "order_by st key songs =
     (if key = ''-upload_date'' then sort_key (\<lambda>s. - upload_date s) songs
      else if key = ''title'' then sort_key title songs
      else if key = ''-play_count'' then sort_key (\<lambda>s. - play_count s) songs
      else if key = ''artist__name'' then sort_key (artist_name_of st) songs
      else songs)"

text \<open>
  The request of \<open>song_list\<close>: the authenticated user (\<open>@login_required\<close> lets no other
  request reach the view) and the parameters of the query string.
\<close>

record song_list_request =
  req_user :: User
  GET_genre :: "string option"
  GET_artist :: "string option"
  GET_album :: "string option"
  GET_sort :: "string option"
  GET_page :: "string option"

text \<open>The query of \<open>song_list\<close>, up to the paginator (views.py lines 75 to 98).\<close>

definition song_list_queryset :: "(string \<Rightarrow> int option) \<Rightarrow> db \<Rightarrow> song_list_request \<Rightarrow> view_error + Song list" where
  "song_list_queryset int_of st req =
     (let songs = filter (visible_to (req_user req)) (Song_objects st) in
      case id_filter int_of (GET_genre req) of
        Inl e \<Rightarrow> Inl e
      | Inr genre_id \<Rightarrow>
     (let songs = (case genre_id of None \<Rightarrow> songs
                   | Some g \<Rightarrow> filter (\<lambda>s. map_option int (genre s) = Some g) songs) in
      case id_filter int_of (GET_artist req) of
        Inl e \<Rightarrow> Inl e
      | Inr artist_id \<Rightarrow>
     (let songs = (case artist_id of None \<Rightarrow> songs
                   | Some a \<Rightarrow> filter (\<lambda>s. int (artist s) = a) songs) in
      case id_filter int_of (GET_album req) of
        Inl e \<Rightarrow> Inl e
      | Inr album_id \<Rightarrow>
     (let songs = (case album_id of None \<Rightarrow> songs
                   | Some a \<Rightarrow> filter (\<lambda>s. map_option int (album s) = Some a) songs);
          sort_by = (case GET_sort req of None \<Rightarrow> ''-upload_date'' | Some k \<Rightarrow> k)
      in Inr (order_by st (if sort_by \<in> set valid_sorts then sort_by else Song_Meta_ordering) songs)))))"

section \<open>Pagination (django.core.paginator, as the views use it)\<close>

record 'a Paginator =
  object_list :: "'a list"
  per_page :: nat

record 'a Page =
  page_object_list :: "'a list"
  number :: nat

datatype page_arg = PyNone | PyStr string | PyInt int

datatype paginator_error = PageNotAnInteger | EmptyPage

text \<open>
  \<open>num_pages = ceil(max(1, count) / per_page)\<close> (no orphans, an empty first page is
  allowed); every paginator of the views has a positive page size.
\<close>

definition num_pages :: "'a Paginator \<Rightarrow> nat" where
  "num_pages p = (max 1 (length (object_list p)) + per_page p - 1) div per_page p"

text \<open>
  \<open>validate_number\<close>: \<open>int(number)\<close> failing (a \<open>TypeError\<close> on \<open>None\<close>, a
  \<open>ValueError\<close> on text) is \<open>PageNotAnInteger\<close>; a number below 1 or above \<open>num_pages\<close>
  is \<open>EmptyPage\<close>.
\<close>

definition validate_number :: "(string \<Rightarrow> int option) \<Rightarrow> 'a Paginator \<Rightarrow> page_arg \<Rightarrow> paginator_error + nat" where
  "validate_number int_of p a =
     (case (case a of PyNone \<Rightarrow> None | PyStr s \<Rightarrow> int_of s | PyInt i \<Rightarrow> Some i) of
        None \<Rightarrow> Inl PageNotAnInteger
      | Some n \<Rightarrow>
          if n < 1 then Inl EmptyPage
          else if n > int (num_pages p) then Inl EmptyPage
          else Inr (nat n))"

text \<open>\<open>Paginator.page\<close>: the slice \<open>object_list[bottom:top]\<close> of the validated page.\<close>

definition Paginator_page :: "(string \<Rightarrow> int option) \<Rightarrow> 'a Paginator \<Rightarrow> page_arg \<Rightarrow> paginator_error + 'a Page" where
  "Paginator_page int_of p a =
     (case validate_number int_of p a of
        Inl e \<Rightarrow> Inl e
      | Inr n \<Rightarrow>
          (let bottom = (n - 1) * per_page p;
               top = bottom + per_page p;
               top = (if top \<ge> length (object_list p) then length (object_list p) else top)
           in Inr \<lparr>page_object_list = take (top - bottom) (drop bottom (object_list p)),
                   number = n\<rparr>))"

text \<open>\<open>request.GET.get('page')\<close> as the argument of \<open>Paginator.page\<close>.\<close>

definition GET_arg :: "string option \<Rightarrow> page_arg" where
  "GET_arg v = (case v of None \<Rightarrow> PyNone | Some s \<Rightarrow> PyStr s)"

text \<open>
  The \<open>try\<close> block every paginated view repeats: \<open>PageNotAnInteger\<close> falls back to page
  1, \<open>EmptyPage\<close> to page \<open>num_pages\<close>; an exception of a handler's own call would reach
  the caller.
\<close>

definition page_or_fallback :: "(string \<Rightarrow> int option) \<Rightarrow> 'a Paginator \<Rightarrow> string option \<Rightarrow> paginator_error + 'a Page" where
  "page_or_fallback int_of p v =
     (case Paginator_page int_of p (GET_arg v) of
        Inr pg \<Rightarrow> Inr pg
      | Inl PageNotAnInteger \<Rightarrow> Paginator_page int_of p (PyInt 1)
      | Inl EmptyPage \<Rightarrow> Paginator_page int_of p (PyInt (int (num_pages p))))"

definition song_list :: "(string \<Rightarrow> int option) \<Rightarrow> db \<Rightarrow> song_list_request \<Rightarrow> view_error + Song Page" where
  "song_list int_of st req =
     (case song_list_queryset int_of st req of
        Inl e \<Rightarrow> Inl e
      | Inr songs \<Rightarrow>
          (case page_or_fallback int_of \<lparr>object_list = songs, per_page = 20\<rparr> (GET_page req) of
             Inl e \<Rightarrow> Inl PaginatorRaised
           | Inr pg \<Rightarrow> Inr pg))"

text \<open>
  \<open>artist_list\<close>: \<open>Artist.objects.annotate(song_count=Count('songs')).order_by('name')\<close>,
  24 to a page. The paginator counts and slices the query in the database; the rows of
  the served page are built when the response is rendered. Building a row assigns each
  annotation to the model instance as an attribute, and \<open>song_count\<close> is a read-only
  property of \<open>Artist\<close> (models.py, lines 68 to 76, as is \<open>album_count\<close>): the assignment
  raises \<open>AttributeError\<close>, which the view does not catch.
\<close>

definition Artist_properties :: "string list" where
  "Artist_properties = [''song_count'', ''album_count'']"

definition annotate_row :: "string \<Rightarrow> Artist \<Rightarrow> nat \<Rightarrow> view_error + Artist \<times> nat" where
  "annotate_row name a n =
     (if name \<in> set Artist_properties then Inl AttributeError else Inr (a, n))"

fun annotated_rows :: "db \<Rightarrow> Artist list \<Rightarrow> view_error + (Artist \<times> nat) list" where
  "annotated_rows st [] = Inr []"
| "annotated_rows st (a # rest) =
     (case annotate_row ''song_count'' a
             (length (filter (\<lambda>s. artist s = artist_pk a) (Song_objects st))) of
        Inl e \<Rightarrow> Inl e
      | Inr r \<Rightarrow>
          (case annotated_rows st rest of
             Inl e \<Rightarrow> Inl e
           | Inr rs \<Rightarrow> Inr (r # rs)))"

definition artist_list_queryset :: "db \<Rightarrow> Artist list" where
  "artist_list_queryset st = sort_key artist_name (Artist_objects st)"

definition artist_list :: "(string \<Rightarrow> int option) \<Rightarrow> db \<Rightarrow> string option \<Rightarrow> view_error + (Artist \<times> nat) Page" where
  "artist_list int_of st page =
     (case page_or_fallback int_of \<lparr>object_list = artist_list_queryset st, per_page = 24\<rparr> page of
        Inl e \<Rightarrow> Inl PaginatorRaised
      | Inr pg \<Rightarrow>
          (case annotated_rows st (page_object_list pg) of
             Inl e \<Rightarrow> Inl e
           | Inr rows \<Rightarrow> Inr \<lparr>page_object_list = rows, number = number pg\<rparr>))"

text \<open>\<open>play_history\<close>: the user's plays, most recent first, 50 to a page.\<close>

definition play_history_queryset :: "db \<Rightarrow> User \<Rightarrow> PlayHistory list" where
  "play_history_queryset st u =
     sort_key (\<lambda>h. - played_at h)
       (filter (\<lambda>h. history_user h = user_id u) (PlayHistory_objects st))"

definition play_history :: "(string \<Rightarrow> int option) \<Rightarrow> db \<Rightarrow> User \<Rightarrow> string option \<Rightarrow> view_error + PlayHistory Page" where
  "play_history int_of st u page =
     (case page_or_fallback int_of \<lparr>object_list = play_history_queryset st u, per_page = 50\<rparr>
             page of
        Inl e \<Rightarrow> Inl PaginatorRaised
      | Inr pg \<Rightarrow> Inr pg)"

section \<open>Inserts and the constraints of the tables\<close>

text \<open>
  Each \<open>create\<close> is the table's \<open>INSERT\<close> with the constraints the model classes
  declare: \<open>Genre.name\<close> is \<open>unique=True\<close>, \<open>Favorite\<close> and \<open>Rating\<close> are
  \<open>unique_together = ('user', 'song')\<close>; \<open>Artist\<close> and \<open>Album\<close> declare indexes only,
  and \<open>PlayHistory\<close> nothing. A violated constraint is an \<open>IntegrityError\<close>. Foreign
  keys are not checked here: every caller passes the key of a row it has just read.
\<close>

definition Artist_create :: "string \<Rightarrow> Artist list \<Rightarrow> orm_error + Artist \<times> Artist list" where
  "Artist_create n rows =
     (let a = \<lparr>artist_pk = new_pk (map artist_pk rows), artist_name = n\<rparr>
      in Inr (a, rows @ [a]))"

definition Album_create :: "string \<Rightarrow> nat \<Rightarrow> Album list \<Rightarrow> orm_error + Album \<times> Album list" where
  "Album_create t ar rows =
     (let a = \<lparr>album_pk = new_pk (map album_pk rows), album_title = t, album_artist = ar\<rparr>
      in Inr (a, rows @ [a]))"

definition Genre_create :: "string \<Rightarrow> Genre list \<Rightarrow> orm_error + Genre \<times> Genre list" where
  "Genre_create n rows =
     (if n \<in> set (map genre_name rows) then Inl IntegrityError
      else (let g = \<lparr>genre_pk = new_pk (map genre_pk rows), genre_name = n\<rparr>
            in Inr (g, rows @ [g])))"

definition Favorite_create :: "nat \<Rightarrow> nat \<Rightarrow> int \<Rightarrow> Favorite list \<Rightarrow> orm_error + Favorite \<times> Favorite list" where
  "Favorite_create u s now rows =
     (if (u, s) \<in> set (map (\<lambda>f. (favorite_user f, favorite_song f)) rows) then Inl IntegrityError
      else (let f = \<lparr>favorite_pk = new_pk (map favorite_pk rows), favorite_user = u,
                      favorite_song = s, added_at = now\<rparr>
            in Inr (f, rows @ [f])))"


definition PlayHistory_create :: "nat \<Rightarrow> nat \<Rightarrow> int \<Rightarrow> PlayHistory list \<Rightarrow> PlayHistory list" where
  "PlayHistory_create u s now rows =
     rows @ [\<lparr>history_pk = new_pk (map history_pk rows), history_user = u, history_song = s,
              played_at = now, completed = False\<rparr>]"

text \<open>
  \<open>QuerySet.get_or_create\<close>: the row \<open>get\<close> finds, with \<open>created = False\<close>; when none
  exists, the row \<open>create\<close> inserts, with \<open>created = True\<close>; when that insert violates a
  constraint, \<open>get\<close> once more, and the \<open>IntegrityError\<close> again if it still finds none.
\<close>

definition get_or_create ::
    "('a \<Rightarrow> bool) \<Rightarrow> ('a list \<Rightarrow> orm_error + 'a \<times> 'a list) \<Rightarrow> 'a list \<Rightarrow> orm_error + ('a \<times> bool) \<times> 'a list" where
  "get_or_create P create rows =
     (case get_row P rows of
        Inr r \<Rightarrow> Inr ((r, False), rows)
      | Inl DoesNotExist \<Rightarrow>
          (case create rows of
             Inr (r, rows') \<Rightarrow> Inr ((r, True), rows')
           | Inl e \<Rightarrow>
               (case get_row P rows of
                  Inr r \<Rightarrow> Inr ((r, False), rows)
                | Inl DoesNotExist \<Rightarrow> Inl e
                | Inl e' \<Rightarrow> Inl e'))
      | Inl e \<Rightarrow> Inl e)"

section \<open>Catalog resolution (forms.SongUploadForm.clean)\<close>

text \<open>
  The three get-or-create steps of \<open>clean\<close>: \<open>Artist.objects.get_or_create(
  name=artist_name.strip())\<close>, the same for \<open>Album\<close> on title and artist and for
  \<open>Genre\<close> on the name.
\<close>

definition resolve_artist :: "db \<Rightarrow> string \<Rightarrow> orm_error + Artist \<times> db" where
  "resolve_artist st artist_name' =
     (let n = py_strip artist_name' in
      case get_or_create (\<lambda>a. artist_name a = n) (Artist_create n) (Artist_objects st) of
        Inl e \<Rightarrow> Inl e
      | Inr ((a, created), rows) \<Rightarrow> Inr (a, st\<lparr>Artist_objects := rows\<rparr>))"

definition resolve_album :: "db \<Rightarrow> string \<Rightarrow> nat \<Rightarrow> orm_error + Album \<times> db" where
  "resolve_album st album_title' ar =
     (let t = py_strip album_title' in
      case get_or_create (\<lambda>a. album_title a = t \<and> album_artist a = ar) (Album_create t ar)
             (Album_objects st) of
        Inl e \<Rightarrow> Inl e
      | Inr ((a, created), rows) \<Rightarrow> Inr (a, st\<lparr>Album_objects := rows\<rparr>))"

definition resolve_genre :: "db \<Rightarrow> string \<Rightarrow> orm_error + Genre \<times> db" where
  "resolve_genre st genre_name' =
     (let n = py_strip genre_name' in
      case get_or_create (\<lambda>g. genre_name g = n) (Genre_create n) (Genre_objects st) of
        Inl e \<Rightarrow> Inl e
      | Inr ((g, created), rows) \<Rightarrow> Inr (g, st\<lparr>Genre_objects := rows\<rparr>))"

text \<open>
  A check box of a form (\<open>CheckboxInput\<close> with a \<open>BooleanField\<close>): a box that is not
  checked is not sent at all, so a missing value is \<open>False\<close>; a sent value is \<open>False\<close>
  when it is the text \<open>false\<close> in any case or empty, and \<open>True\<close> otherwise. The form
  never leaves the model's default in place for such a field.
\<close>

definition ascii_lower :: "char \<Rightarrow> char" where
  "ascii_lower c =
     (if 65 \<le> (of_char c :: nat) \<and> (of_char c :: nat) \<le> 90 then char_of (of_char c + 32 :: nat)
      else c)"

definition CheckboxInput_value :: "string option \<Rightarrow> bool" where
  "CheckboxInput_value v =
     (case v of
        None \<Rightarrow> False
      | Some s \<Rightarrow>
          if map ascii_lower s = ''true'' then True
          else if map ascii_lower s = ''false'' then False
          else s \<noteq> [])"

text \<open>
  The data \<open>clean\<close> reads: the selected rows (their keys), the free-text names (an
  empty field is the empty text), the size of the uploaded file when there is one, and
  the visibility check box as the request sent it.
\<close>

record SongUploadForm_data =
  form_title :: string
  form_artist :: "nat option"
  form_artist_name :: string
  form_album :: "nat option"
  form_album_title :: string
  form_genre :: "nat option"
  form_genre_name :: string
  form_audio_size :: "nat option"
  form_is_public :: "string option"

datatype clean_error =
    ValidationError_artist
  | ValidationError_audio_size
  | Raised orm_error

text \<open>
  \<open>SongUploadForm.clean\<close>, statement by statement. The rows a get-or-create step has
  inserted stay in the store when a later step raises, so the store is returned on
  every path.
\<close>

definition SongUploadForm_clean :: "db \<Rightarrow> SongUploadForm_data \<Rightarrow> (clean_error + SongUploadForm_data) \<times> db" where
  "SongUploadForm_clean st d =
     (if form_artist d = None \<and> form_artist_name d = [] then (Inl ValidationError_artist, st)
      else
       (case (if form_artist d = None \<and> form_artist_name d \<noteq> []
              then (case resolve_artist st (form_artist_name d) of
                      Inl e \<Rightarrow> Inl e
                    | Inr (a, st') \<Rightarrow> Inr (d\<lparr>form_artist := Some (artist_pk a)\<rparr>, st'))
              else Inr (d, st)) of
          Inl e \<Rightarrow> (Inl (Raised e), st)
        | Inr (d1, st1) \<Rightarrow>
       (case (if form_album d1 = None \<and> form_album_title d1 \<noteq> [] \<and> form_artist d1 \<noteq> None
              then (case resolve_album st1 (form_album_title d1) (the (form_artist d1)) of
                      Inl e \<Rightarrow> Inl e
                    | Inr (a, st') \<Rightarrow> Inr (d1\<lparr>form_album := Some (album_pk a)\<rparr>, st'))
              else Inr (d1, st1)) of
          Inl e \<Rightarrow> (Inl (Raised e), st1)
        | Inr (d2, st2) \<Rightarrow>
       (case (if form_genre d2 = None \<and> form_genre_name d2 \<noteq> []
              then (case resolve_genre st2 (form_genre_name d2) of
                      Inl e \<Rightarrow> Inl e
                    | Inr (g, st') \<Rightarrow> Inr (d2\<lparr>form_genre := Some (genre_pk g)\<rparr>, st'))
              else Inr (d2, st2)) of
          Inl e \<Rightarrow> (Inl (Raised e), st2)
        | Inr (d3, st3) \<Rightarrow>
            (case form_audio_size d3 of
               None \<Rightarrow> (Inr d3, st3)
             | Some n \<Rightarrow>
                 if n > 50 * 1024 * 1024 then (Inl ValidationError_audio_size, st3)
                 else (Inr d3, st3))))))"

section \<open>Song views (views.py)\<close>

text \<open>
  What a view returns. \<open>Http404\<close> is the exception of \<open>get_object_or_404\<close>;
  \<open>PermissionDenied\<close> is the refusal every guarded view writes as
  \<open>messages.error(request, 'You do not have permission to ...')\<close> followed by a
  redirect; the other constructors are the successful responses. A rendered creation
  form carries the state of its visibility check box. Flash messages of the
  successful paths and the parts of a template context that no property reads are left
  out.
\<close>

datatype redirect_target =
    To_home
  | To_song_list
  | To_song_detail nat
  | To_playlist_list
  | To_playlist_detail nat

datatype response =
    Http404
  | PermissionDenied redirect_target
  | Redirect redirect_target
  | Render_song_detail Song bool "Rating option"
  | Render_upload_song bool
  | Render_edit_song Song
  | Render_playlist_detail Playlist bool
  | Render_create_playlist bool
  | Render_edit_playlist Playlist
  | JsonResponse_play int
  | JsonResponse_is_favorite bool
  | FileResponse nat

text \<open>
  A form view's request: a \<open>GET\<close>, or a \<open>POST\<close> with the form's data after the
  field-level cleaning (a \<open>POST\<close> that fails it renders the form again, as a failed
  \<open>clean\<close> does).
\<close>

datatype 'd form_request = GET | POST 'd

definition song_detail :: "db \<Rightarrow> User \<Rightarrow> nat \<Rightarrow> response" where
  "song_detail st u k =
     (case get_song st k of
        None \<Rightarrow> Http404
      | Some song \<Rightarrow>
          if \<not> is_public song \<and> uploaded_by song \<noteq> user_id u then PermissionDenied To_home
          else Render_song_detail song
                 (filter (\<lambda>f. favorite_user f = user_id u \<and> favorite_song f = pk song)
                    (Favorite_objects st) \<noteq> [])
                 (find (\<lambda>r. rating_user r = user_id u \<and> rating_song r = pk song)
                    (Rating_objects st)))"

text \<open>
  \<open>form.save()\<close> on a new song (\<open>upload_song\<close>, which then sets the uploader) and on an
  existing one (\<open>edit_song\<close>): the cleaned fields are written to the row. The form of a
  \<open>GET\<close> is built on a fresh \<open>Song()\<close>, so its check box shows the model's default; a
  form that is rendered again shows what was posted. A new song needs its audio file:
  without one the form is invalid.
\<close>

definition Song_of_form :: "SongUploadForm_data \<Rightarrow> Song \<Rightarrow> Song" where
  "Song_of_form d s =
     s\<lparr>title := form_title d, artist := the (form_artist d), album := form_album d,
       genre := form_genre d, is_public := CheckboxInput_value (form_is_public d)\<rparr>"


definition edit_song :: "db \<Rightarrow> User \<Rightarrow> nat \<Rightarrow> SongUploadForm_data form_request \<Rightarrow> response \<times> db" where
  "edit_song st u k req =
     (case get_song st k of
        None \<Rightarrow> (Http404, st)
      | Some song \<Rightarrow>
          if uploaded_by song \<noteq> user_id u \<and> \<not> is_staff u
          then (PermissionDenied (To_song_detail (pk song)), st)
          else
            (case req of
               GET \<Rightarrow> (Render_edit_song song, st)
             | POST d \<Rightarrow>
                 (case SongUploadForm_clean st d of
                    (Inl e, st') \<Rightarrow> (Render_edit_song song, st')
                  | (Inr d', st') \<Rightarrow>
                      (Redirect (To_song_detail (pk song)),
                       st'\<lparr>Song_objects :=
                             map (\<lambda>s. if pk s = pk song then Song_of_form d' s else s)
                               (Song_objects st')\<rparr>))))"

text \<open>
  \<open>song.delete()\<close>: the row, and with it (\<open>on_delete=CASCADE\<close>) the favorites, ratings
  and plays that reference it and its entries in the playlists.
\<close>

definition Song_delete :: "db \<Rightarrow> nat \<Rightarrow> db" where
  "Song_delete st k =
     st\<lparr>Song_objects := filter (\<lambda>s. pk s \<noteq> k) (Song_objects st),
        Favorite_objects := filter (\<lambda>f. favorite_song f \<noteq> k) (Favorite_objects st),
        Rating_objects := filter (\<lambda>r. rating_song r \<noteq> k) (Rating_objects st),
        PlayHistory_objects := filter (\<lambda>h. history_song h \<noteq> k) (PlayHistory_objects st),
        Playlist_objects :=
          map (\<lambda>p. p\<lparr>playlist_songs := filter (\<lambda>x. x \<noteq> k) (playlist_songs p)\<rparr>)
            (Playlist_objects st)\<rparr>"

definition delete_song :: "db \<Rightarrow> User \<Rightarrow> nat \<Rightarrow> response \<times> db" where
  "delete_song st u k =
     (case get_song st k of
        None \<Rightarrow> (Http404, st)
      | Some song \<Rightarrow>
          if uploaded_by song \<noteq> user_id u \<and> \<not> is_staff u
          then (PermissionDenied (To_song_detail (pk song)), st)
          else (Redirect To_song_list, Song_delete st (pk song)))"

text \<open>
  \<open>Song.increment_play_count\<close>: \<open>self.play_count += 1\<close> on the object in memory, then
  \<open>save(update_fields=['play_count'])\<close> writes that value to the row;
  \<open>increment_download_count\<close> does the same on the other counter.
\<close>

definition increment_play_count :: "db \<Rightarrow> Song \<Rightarrow> Song \<times> db" where
  "increment_play_count st song =
     (let song' = song\<lparr>play_count := play_count song + 1\<rparr>
      in (song', st\<lparr>Song_objects :=
                      map (\<lambda>s. if pk s = pk song' then s\<lparr>play_count := play_count song'\<rparr> else s)
                        (Song_objects st)\<rparr>))"

definition increment_download_count :: "db \<Rightarrow> Song \<Rightarrow> Song \<times> db" where
  "increment_download_count st song =
     (let song' = song\<lparr>download_count := download_count song + 1\<rparr>
      in (song', st\<lparr>Song_objects :=
                      map (\<lambda>s. if pk s = pk song'
                                then s\<lparr>download_count := download_count song'\<rparr> else s)
                        (Song_objects st)\<rparr>))"

definition play_song :: "db \<Rightarrow> User \<Rightarrow> int \<Rightarrow> nat \<Rightarrow> response \<times> db" where
  "play_song st u now k =
     (case get_song st k of
        None \<Rightarrow> (Http404, st)
      | Some song \<Rightarrow>
          (let (song', st1) = increment_play_count st song;
               st2 = st1\<lparr>PlayHistory_objects :=
                           PlayHistory_create (user_id u) (pk song') now (PlayHistory_objects st1)\<rparr>
           in (JsonResponse_play (play_count song'), st2)))"

definition download_song :: "db \<Rightarrow> User \<Rightarrow> nat \<Rightarrow> response \<times> db" where
  "download_song st u k =
     (case get_song st k of
        None \<Rightarrow> (Http404, st)
      | Some song \<Rightarrow>
          if \<not> is_public song \<and> uploaded_by song \<noteq> user_id u then (PermissionDenied To_home, st)
          else (let (song', st1) = increment_download_count st song
                in (FileResponse (pk song'), st1)))"

section \<open>Playlist views\<close>

text \<open>
  The data of \<open>PlaylistForm\<close>: the name, the two check boxes as the request sent
  them, and the size and content type of the cover image when one is uploaded
  (\<open>clean_cover_image\<close>).
\<close>

record PlaylistForm_data =
  form_name :: string
  form_playlist_is_public :: "string option"
  form_is_collaborative :: "string option"
  form_cover_image :: "(nat \<times> string) option"

definition clean_cover_image :: "PlaylistForm_data \<Rightarrow> bool" where
  "clean_cover_image d =
     (case form_cover_image d of
        None \<Rightarrow> True
      | Some (size', content_type) \<Rightarrow>
          if size' > 5 * 1024 * 1024 then False
          else content_type \<in> set [''image/jpeg'', ''image/jpg'', ''image/png'', ''image/gif''])"

definition Playlist_of_form :: "PlaylistForm_data \<Rightarrow> Playlist \<Rightarrow> Playlist" where
  "Playlist_of_form d p =
     p\<lparr>playlist_name := form_name d,
       playlist_is_public := CheckboxInput_value (form_playlist_is_public d),
       playlist_is_collaborative := CheckboxInput_value (form_is_collaborative d)\<rparr>"

definition playlist_detail :: "db \<Rightarrow> User \<Rightarrow> nat \<Rightarrow> response" where
  "playlist_detail st u k =
     (case get_playlist st k of
        None \<Rightarrow> Http404
      | Some playlist \<Rightarrow>
          if \<not> playlist_is_public playlist \<and> playlist_user playlist \<noteq> user_id u
          then PermissionDenied To_playlist_list
          else Render_playlist_detail playlist (playlist_user playlist = user_id u))"


definition edit_playlist :: "db \<Rightarrow> User \<Rightarrow> nat \<Rightarrow> PlaylistForm_data form_request \<Rightarrow> response \<times> db" where
  "edit_playlist st u k req =
     (case get_playlist_of st k u of
        None \<Rightarrow> (Http404, st)
      | Some playlist \<Rightarrow>
          (case req of
             GET \<Rightarrow> (Render_edit_playlist playlist, st)
           | POST d \<Rightarrow>
               if clean_cover_image d
               then (Redirect (To_playlist_detail (playlist_pk playlist)),
                     st\<lparr>Playlist_objects :=
                          map (\<lambda>p. if playlist_pk p = playlist_pk playlist
                                    then Playlist_of_form d p else p)
                            (Playlist_objects st)\<rparr>)
               else (Render_edit_playlist playlist, st)))"

definition delete_playlist :: "db \<Rightarrow> User \<Rightarrow> nat \<Rightarrow> response \<times> db" where
  "delete_playlist st u k =
     (case get_playlist_of st k u of
        None \<Rightarrow> (Http404, st)
      | Some playlist \<Rightarrow>
          (Redirect To_playlist_list,
           st\<lparr>Playlist_objects :=
                filter (\<lambda>p. playlist_pk p \<noteq> playlist_pk playlist) (Playlist_objects st)\<rparr>))"

section \<open>Favorites and ratings\<close>

text \<open>
  \<open>toggle_favorite\<close>: \<open>Favorite.objects.get_or_create(user=request.user, song=song)\<close>;
  a row that was already there is deleted (\<open>favorite.delete()\<close>, by its primary key).
  The flag \<open>is_favorite\<close> is returned as JSON to an \<open>XMLHttpRequest\<close> (\<open>ajax\<close>), any
  other request is redirected to the song. An exception of the store that the view
  does not catch is the \<open>Inl\<close> result.
\<close>

definition toggle_favorite :: "db \<Rightarrow> User \<Rightarrow> int \<Rightarrow> bool \<Rightarrow> nat \<Rightarrow> (orm_error + response) \<times> db" where
  "toggle_favorite st u now ajax song_pk =
     (case get_song st song_pk of
        None \<Rightarrow> (Inr Http404, st)
      | Some song \<Rightarrow>
          (case get_or_create (\<lambda>f. favorite_user f = user_id u \<and> favorite_song f = pk song)
                  (Favorite_create (user_id u) (pk song) now) (Favorite_objects st) of
             Inl e \<Rightarrow> (Inl e, st)
           | Inr ((favorite, created), rows) \<Rightarrow>
               (let (is_favorite, rows') =
                      (if \<not> created
                       then (False, filter (\<lambda>f. favorite_pk f \<noteq> favorite_pk favorite) rows)
                       else (True, rows))
                in (Inr (if ajax then JsonResponse_is_favorite is_favorite
                         else Redirect (To_song_detail (pk song))),
                    st\<lparr>Favorite_objects := rows'\<rparr>))))"





section \<open>Statistics (views.user_stats)\<close>

text \<open>
  The query \<open>PlayHistory.objects.filter(user=request.user).values('song').annotate(
  play_count=Count('song')).order_by('-play_count')[:10]\<close>: one group per song of the
  user's plays with the number of its rows, by that number descending, the first ten.
  The count is the only sort key, so the order of groups with equal counts is the
  database engine's choice. That choice is the parameter \<open>engine_rank\<close>: from the table
  as stored it gives every song a rank, and groups with equal counts come by ascending
  rank (equal ranks by key). Every order an engine may return is the order of some
  rank, and every rank gives an order the query allows.
\<close>

definition most_played :: "(PlayHistory list \<Rightarrow> nat \<Rightarrow> int) \<Rightarrow> db \<Rightarrow> User \<Rightarrow> (nat \<times> nat) list" where
  "most_played engine_rank st u =
     (let rows = filter (\<lambda>h. history_user h = user_id u) (PlayHistory_objects st);
          groups = map (\<lambda>k. (k, length (filter (\<lambda>h. history_song h = k) rows)))
                     (sort (remdups (map history_song rows)))
      in take 10
           (sort_key (\<lambda>(k, c). - int c)
              (sort_key (\<lambda>(k, c). engine_rank (PlayHistory_objects st) k) groups)))"

text \<open>The loop of \<open>user_stats\<close>: \<open>Song.objects.get(pk=item['song'])\<close> for each group.\<close>

fun most_played_songs :: "db \<Rightarrow> (nat \<times> nat) list \<Rightarrow> orm_error + (Song \<times> nat) list" where
  "most_played_songs st [] = Inr []"
| "most_played_songs st ((k, c) # items) =
     (case get_song st k of
        None \<Rightarrow> Inl DoesNotExist
      | Some song \<Rightarrow>
          (case most_played_songs st items of
             Inl e \<Rightarrow> Inl e
           | Inr rest \<Rightarrow> Inr ((song, c) # rest)))"

record user_stats_context =
  total_uploads :: nat
  total_playlists :: nat
  total_favorites :: nat
  total_plays :: nat
  most_played_list :: "(Song \<times> nat) list"

definition user_stats :: "(PlayHistory list \<Rightarrow> nat \<Rightarrow> int) \<Rightarrow> db \<Rightarrow> User \<Rightarrow> orm_error + user_stats_context" where
  "user_stats engine_rank st u =
     (case most_played_songs st (most_played engine_rank st u) of
        Inl e \<Rightarrow> Inl e
      | Inr songs \<Rightarrow>
          Inr \<lparr>total_uploads = length (filter (\<lambda>s. uploaded_by s = user_id u) (Song_objects st)),
               total_playlists =
                 length (filter (\<lambda>p. playlist_user p = user_id u) (Playlist_objects st)),
               total_favorites =
                 length (filter (\<lambda>f. favorite_user f = user_id u) (Favorite_objects st)),
               total_plays =
                 length (filter (\<lambda>h. history_user h = user_id u) (PlayHistory_objects st)),
               most_played_list = songs\<rparr>)"

section \<open>The specification's reading of the statistics\<close>

text \<open>
  The most recent play of a song among the user's plays, and the ordering the
  specification words for \<open>most_played(user, limit)\<close>: by count descending, ties by the
  most recent play descending, truncated to the limit. These two follow the
  specification's text, not the source; they are what \<open>most_played\<close> is compared with.
\<close>

definition latest_play :: "db \<Rightarrow> User \<Rightarrow> nat \<Rightarrow> int option" where
  "latest_play st u k =
     (case map played_at (filter (\<lambda>h. history_user h = user_id u \<and> history_song h = k)
                            (PlayHistory_objects st)) of
        [] \<Rightarrow> None
      | t # ts \<Rightarrow> Some (foldr max ts t))"

definition most_played_spec :: "db \<Rightarrow> User \<Rightarrow> nat \<Rightarrow> (nat \<times> nat) list" where
  "most_played_spec st u limit =
     (let rows = filter (\<lambda>h. history_user h = user_id u) (PlayHistory_objects st);
          groups = map (\<lambda>k. (k, length (filter (\<lambda>h. history_song h = k) rows)))
                     (sort (remdups (map history_song rows)))
      in take limit
           (sort_key (\<lambda>(k, c). - int c)
              (sort_key (\<lambda>(k, c). case latest_play st u k of None \<Rightarrow> 0 | Some t \<Rightarrow> - t)
                 groups)))"

section \<open>Observations of the store, and a small store to evaluate on\<close>

text \<open>The rows of one user and one song in the three engagement tables.\<close>

definition plays_of :: "db \<Rightarrow> User \<Rightarrow> nat \<Rightarrow> nat" where
  "plays_of st u k =
     length (filter (\<lambda>h. history_user h = user_id u \<and> history_song h = k) (PlayHistory_objects st))"

definition favorites_of :: "db \<Rightarrow> User \<Rightarrow> nat \<Rightarrow> Favorite list" where
  "favorites_of st u k =
     filter (\<lambda>f. favorite_user f = user_id u \<and> favorite_song f = k) (Favorite_objects st)"


text \<open>
  The page a paginated view serves for a \<open>page\<close> parameter. The number of pages is
  the least that holds all rows (one, for no rows). The view serves page 1 when the
  parameter is missing or not a number, the requested page when it exists, the last
  page otherwise; the items are the slice of the page size at that position.
\<close>

definition served_page :: "(string \<Rightarrow> int option) \<Rightarrow> 'a Paginator \<Rightarrow> string option \<Rightarrow> 'a Page \<Rightarrow> bool" where
  "served_page int_of p v pg =
     ((num_pages p - 1) * per_page p < max 1 (length (object_list p))
      \<and> max 1 (length (object_list p)) \<le> num_pages p * per_page p
      \<and> 1 \<le> number pg \<and> number pg \<le> num_pages p
      \<and> page_object_list pg
          = take (per_page p) (drop ((number pg - 1) * per_page p) (object_list p))
      \<and> number pg =
          (case v of
             None \<Rightarrow> 1
           | Some s \<Rightarrow>
               (case int_of s of
                  None \<Rightarrow> 1
                | Some n \<Rightarrow> if 1 \<le> n \<and> n \<le> int (num_pages p) then nat n else num_pages p)))"

definition alice :: User where
  "alice = \<lparr>user_id = 1, username = ''alice'', is_staff = False\<rparr>"

definition bob :: User where
  "bob = \<lparr>user_id = 2, username = ''bob'', is_staff = False\<rparr>"

definition staff :: User where
  "staff = \<lparr>user_id = 3, username = ''staff'', is_staff = True\<rparr>"

definition airbag :: Song where
  "airbag = \<lparr>pk = 1, title = ''Airbag'', artist = 1, album = None, genre = None,
              uploaded_by = 1, upload_date = 10, play_count = 0, download_count = 0,
              is_public = True, is_featured = False\<rparr>"

definition bones :: Song where
  "bones = \<lparr>pk = 2, title = ''Bones'', artist = 1, album = None, genre = None,
             uploaded_by = 1, upload_date = 20, play_count = 0, download_count = 0,
             is_public = False, is_featured = False\<rparr>"

definition mix :: Playlist where
  "mix = \<lparr>playlist_pk = 1, playlist_name = ''mix'', playlist_user = 1, playlist_songs = [1],
           playlist_is_public = False, playlist_is_collaborative = False,
           playlist_created_at = 30\<rparr>"

text \<open>
  Alice has uploaded a public and a private song of one artist and owns a private
  playlist; nobody has played, rated or marked anything yet.
\<close>

definition demo_db :: db where
  "demo_db = \<lparr>Song_objects = [airbag, bones],
               Artist_objects = [\<lparr>artist_pk = 1, artist_name = ''Radiohead''\<rparr>],
               Album_objects = [], Genre_objects = [], Playlist_objects = [mix],
               Favorite_objects = [], Rating_objects = [], PlayHistory_objects = []\<rparr>"

text \<open>
  The history of the specification's example: alice has played song 1 three times,
  song 2 five times and song 3 once, all three songs being in the store.
\<close>

definition creep :: Song where
  "creep = \<lparr>pk = 3, title = ''Creep'', artist = 1, album = None, genre = None,
             uploaded_by = 1, upload_date = 25, play_count = 0, download_count = 0,
             is_public = True, is_featured = False\<rparr>"

definition play_row :: "nat \<Rightarrow> nat \<Rightarrow> nat \<Rightarrow> int \<Rightarrow> PlayHistory" where
  "play_row i u k t =
     \<lparr>history_pk = i, history_user = u, history_song = k, played_at = t, completed = False\<rparr>"

definition stats_db :: db where
  "stats_db = demo_db\<lparr>Song_objects := [airbag, bones, creep], PlayHistory_objects :=
     [play_row 1 1 1 101, play_row 2 1 2 102, play_row 3 1 2 103, play_row 4 1 3 104,
      play_row 5 1 1 105, play_row 6 1 2 106, play_row 7 1 2 107, play_row 8 1 1 108,
      play_row 9 1 2 109]\<rparr>"

text \<open>
  Alice has played song 1 once and, later, song 2 once; and the same with the two
  songs exchanged.
\<close>

definition tie_db :: db where
  "tie_db = demo_db\<lparr>PlayHistory_objects := [play_row 1 1 1 100, play_row 2 1 2 200]\<rparr>"

definition tie_rev_db :: db where
  "tie_rev_db = demo_db\<lparr>PlayHistory_objects := [play_row 1 1 2 100, play_row 2 1 1 200]\<rparr>"

text \<open>An engine that returns groups of equal counts by descending song key.\<close>

definition rank_descending :: "PlayHistory list \<Rightarrow> nat \<Rightarrow> int" where
  "rank_descending rows k = - int k"

text \<open>
  A store of twenty-one public songs of alice, song \<open>i\<close> uploaded at time \<open>i\<close>, the
  newest first in the table: one more than a page of the song listing holds.
\<close>

definition numbered_song :: "nat \<Rightarrow> Song" where
  "numbered_song i =
     \<lparr>pk = i, title = ''Track'', artist = 1, album = None, genre = None,
      uploaded_by = 1, upload_date = int i, play_count = 0, download_count = 0,
      is_public = True, is_featured = False\<rparr>"

definition numbered_songs :: "Song list" where
  "numbered_songs = map numbered_song
     [21, 20, 19, 18, 17, 16, 15, 14, 13, 12, 11, 10, 9, 8, 7, 6, 5, 4, 3, 2, 1]"

definition big_db :: db where
  "big_db = demo_db\<lparr>Song_objects := numbered_songs\<rparr>"



definition list_request :: "User \<Rightarrow> string option \<Rightarrow> string option \<Rightarrow> song_list_request" where
  "list_request u srt page =
     \<lparr>req_user = u, GET_genre = None, GET_artist = None, GET_album = None,
      GET_sort = srt, GET_page = page\<rparr>"

section \<open>Lookups and updates by primary key\<close>

lemma get_song_Some: "get_song st k = Some s \<Longrightarrow> pk s = k \<and> s \<in> set (Song_objects st)"
  unfolding get_song_def by (auto simp: find_Some_iff)

lemma find_map_upd:
  assumes "\<And>x. P (f x) = P x"
  shows "find P (map (\<lambda>x. if P x then f x else x) xs) = map_option f (find P xs)"
  using assms by (induction xs) auto

lemma filter_singleton_delete:
  assumes "filter P rows = [f]"
  shows "filter P (filter (\<lambda>x. key x \<noteq> key f) rows) = []"
proof -
  have "x = f" if "x \<in> set rows" "P x" for x
  proof -
    from that have "x \<in> set (filter P rows)" by simp
    then show "x = f" by (simp add: assms)
  qed
  then show ?thesis by (auto simp: filter_empty_conv)
qed

lemma length_le1_cases: "length xs \<le> Suc 0 \<Longrightarrow> xs = [] \<or> (\<exists>x. xs = [x])"
  by (cases xs) auto

section \<open>The song listing shows exactly the visible songs\<close>

lemma set_order_by: "set (order_by st key songs) = set songs"
  by (simp add: order_by_def)

text \<open>
  C2. With no genre, artist or album filter, the query of \<open>song_list\<close> (all its pages
  together) holds a song exactly when the song is in the store and is public or was
  uploaded by the requesting user, whatever the sort key; so a private song is listed
  exactly for its uploader.
\<close>

theorem song_list_visibility:
  "\<exists>xs. song_list_queryset int_of st
          \<lparr>req_user = u, GET_genre = None, GET_artist = None, GET_album = None,
           GET_sort = srt, GET_page = page\<rparr> = Inr xs
      \<and> (\<forall>S. S \<in> set xs \<longleftrightarrow>
             S \<in> set (Song_objects st) \<and> (is_public S \<or> uploaded_by S = user_id u))
      \<and> (\<forall>S. S \<in> set (Song_objects st) \<and> \<not> is_public S \<longrightarrow>
             (S \<in> set xs \<longleftrightarrow> uploaded_by S = user_id u))"
  by (auto simp: song_list_queryset_def id_filter_def set_order_by visible_to_def Let_def)

theorem song_list_visibility_witness:
  "\<exists>xs. song_list_queryset py_int demo_db (list_request bob None None) = Inr xs
      \<and> airbag \<in> set xs \<and> bones \<notin> set xs"
proof -
  from song_list_visibility [of py_int demo_db bob None None]
  obtain xs where
    q: "song_list_queryset py_int demo_db (list_request bob None None) = Inr xs" and
    v: "\<And>S. S \<in> set xs \<longleftrightarrow>
          S \<in> set (Song_objects demo_db) \<and> (is_public S \<or> uploaded_by S = user_id bob)"
    unfolding list_request_def by blast
  have a: "airbag \<in> set xs"
    unfolding v by (simp add: demo_db_def airbag_def)
  have b: "bones \<notin> set xs"
    unfolding v by (simp add: demo_db_def bones_def bob_def)
  from q a b show ?thesis by blast
qed

section \<open>Recording a play\<close>

lemma play_song_Some:
  assumes "get_song st k = Some song"
  shows "play_song st u now k =
           (JsonResponse_play (play_count song + 1),
            st\<lparr>Song_objects :=
                 map (\<lambda>s. if pk s = k then s\<lparr>play_count := play_count song + 1\<rparr> else s)
                   (Song_objects st),
               PlayHistory_objects :=
                 PlayHistory_create (user_id u) k now (PlayHistory_objects st)\<rparr>)"
  using get_song_Some[OF assms] assms
  by (simp add: play_song_def increment_play_count_def Let_def)

lemma play_song_step:
  assumes "get_song st k = Some song"
  shows "fst (play_song st u now k) = JsonResponse_play (play_count song + 1)"
    and "get_song (snd (play_song st u now k)) k = Some (song\<lparr>play_count := play_count song + 1\<rparr>)"
    and "plays_of (snd (play_song st u now k)) u k = Suc (plays_of st u k)"
    and "length (PlayHistory_objects (snd (play_song st u now k)))
           = Suc (length (PlayHistory_objects st))"
proof -
  note ps = play_song_Some[OF assms]
  show "fst (play_song st u now k) = JsonResponse_play (play_count song + 1)"
    by (simp add: ps)
  have "find (\<lambda>s. pk s = k)
          (map (\<lambda>s. if pk s = k then s\<lparr>play_count := play_count song + 1\<rparr> else s) (Song_objects st))
        = map_option (\<lambda>s. s\<lparr>play_count := play_count song + 1\<rparr>)
            (find (\<lambda>s. pk s = k) (Song_objects st))"
    by (rule find_map_upd) simp
  then show "get_song (snd (play_song st u now k)) k
               = Some (song\<lparr>play_count := play_count song + 1\<rparr>)"
    using assms by (simp add: ps get_song_def)
  show "plays_of (snd (play_song st u now k)) u k = Suc (plays_of st u k)"
    by (simp add: ps plays_of_def PlayHistory_create_def)
  show "length (PlayHistory_objects (snd (play_song st u now k)))
          = Suc (length (PlayHistory_objects st))"
    by (simp add: ps PlayHistory_create_def)
qed

lemma play_song_fold:
  assumes "get_song st k = Some song"
  shows "get_song (fold (\<lambda>now s. snd (play_song s u now k)) nows st) k
           = Some (song\<lparr>play_count := play_count song + int (length nows)\<rparr>)
       \<and> plays_of (fold (\<lambda>now s. snd (play_song s u now k)) nows st) u k
           = plays_of st u k + length nows"
  using assms
proof (induction nows arbitrary: st song)
  case Nil
  then show ?case by simp
next
  case (Cons t ts)
  from play_song_step(2,3)[OF Cons.prems, of u t]
  have a: "get_song (snd (play_song st u t k)) k = Some (song\<lparr>play_count := play_count song + 1\<rparr>)"
    and b: "plays_of (snd (play_song st u t k)) u k = Suc (plays_of st u k)"
    by auto
  from Cons.IH[OF a] b show ?case by (simp add: add.assoc)
qed

text \<open>
  C6. A call of \<open>play_song\<close> on a song of the store answers with the new counter, leaves
  the song's \<open>play_count\<close> one higher and the \<open>PlayHistory\<close> table one row longer, that
  row being one of the user and the song; a call on a key that names no song changes
  nothing, so a counter never moves without its history row. After the calls of a
  list of request times, one after the other, the counter is higher by the number of
  calls and as many rows of the user and the song have been added.
\<close>

theorem record_play_effects:
  "(get_song st k = None \<longrightarrow> play_song st u now k = (Http404, st))
   \<and> (\<forall>song. get_song st k = Some song \<longrightarrow>
         fst (play_song st u now k) = JsonResponse_play (play_count song + 1)
       \<and> map_option play_count (get_song (snd (play_song st u now k)) k)
           = Some (play_count song + 1)
       \<and> plays_of (snd (play_song st u now k)) u k = plays_of st u k + 1
       \<and> length (PlayHistory_objects (snd (play_song st u now k)))
           = length (PlayHistory_objects st) + 1
       \<and> map_option play_count
           (get_song (fold (\<lambda>now s. snd (play_song s u now k)) nows st) k)
           = Some (play_count song + int (length nows))
       \<and> plays_of (fold (\<lambda>now s. snd (play_song s u now k)) nows st) u k
           = plays_of st u k + length nows)"
proof (intro conjI allI impI)
  assume "get_song st k = None"
  then show "play_song st u now k = (Http404, st)"
    by (simp add: play_song_def)
next
  fix song assume s: "get_song st k = Some song"
  show "fst (play_song st u now k) = JsonResponse_play (play_count song + 1)"
    by (rule play_song_step(1)[OF s])
  show "map_option play_count (get_song (snd (play_song st u now k)) k)
          = Some (play_count song + 1)"
    by (simp add: play_song_step(2)[OF s])
  show "plays_of (snd (play_song st u now k)) u k = plays_of st u k + 1"
    by (simp add: play_song_step(3)[OF s])
  show "length (PlayHistory_objects (snd (play_song st u now k)))
          = length (PlayHistory_objects st) + 1"
    by (simp add: play_song_step(4)[OF s])
  show "map_option play_count
          (get_song (fold (\<lambda>now s. snd (play_song s u now k)) nows st) k)
          = Some (play_count song + int (length nows))"
    using play_song_fold[OF s, of u nows] by simp
  show "plays_of (fold (\<lambda>now s. snd (play_song s u now k)) nows st) u k
          = plays_of st u k + length nows"
    using play_song_fold[OF s, of u nows] by simp
qed

theorem record_play_effects_witness:
  "get_song demo_db 1 = Some airbag
   \<and> fst (play_song demo_db bob 40 1) = JsonResponse_play 1
   \<and> map_option play_count
       (get_song (fold (\<lambda>now s. snd (play_song s bob now 1)) [40, 41, 42] demo_db) 1) = Some 3
   \<and> plays_of (fold (\<lambda>now s. snd (play_song s bob now 1)) [40, 41, 42] demo_db) bob 1 = 3"
proof -
  have s: "get_song demo_db 1 = Some airbag"
    by (simp add: get_song_def demo_db_def airbag_def)
  have p: "plays_of demo_db bob 1 = 0" "play_count airbag = 0"
    by (simp_all add: plays_of_def demo_db_def airbag_def)
  show ?thesis
    using record_play_effects [of demo_db 1 bob 40 "[40, 41, 42]"] s p by simp
qed

section \<open>Toggling a favorite\<close>

lemma toggle_absent:
  assumes "get_song st k = Some song" and "favorites_of st u k = []"
  shows "toggle_favorite st u now ajax k =
           (Inr (if ajax then JsonResponse_is_favorite True else Redirect (To_song_detail k)),
            st\<lparr>Favorite_objects := Favorite_objects st @
                 [\<lparr>favorite_pk = new_pk (map favorite_pk (Favorite_objects st)),
                   favorite_user = user_id u, favorite_song = k, added_at = now\<rparr>]\<rparr>)"
proof -
  have pk: "pk song = k" using get_song_Some[OF assms(1)] by simp
  have notin: "(user_id u, k) \<notin> set (map (\<lambda>f. (favorite_user f, favorite_song f)) (Favorite_objects st))"
    using assms(2) by (auto simp: favorites_of_def filter_empty_conv)
  show ?thesis
    using assms(2) notin
    by (simp add: toggle_favorite_def assms(1) pk get_or_create_def get_row_def favorites_of_def
        Favorite_create_def Let_def)
qed

lemma toggle_present:
  assumes "get_song st k = Some song" and "favorites_of st u k = [f]"
  shows "toggle_favorite st u now ajax k =
           (Inr (if ajax then JsonResponse_is_favorite False else Redirect (To_song_detail k)),
            st\<lparr>Favorite_objects :=
                 filter (\<lambda>x. favorite_pk x \<noteq> favorite_pk f) (Favorite_objects st)\<rparr>)"
proof -
  have pk: "pk song = k" using get_song_Some[OF assms(1)] by simp
  show ?thesis
    using assms(2)
    by (simp add: toggle_favorite_def assms(1) pk get_or_create_def get_row_def favorites_of_def)
qed

text \<open>
  C8. On a song of the store, with at most one \<open>Favorite\<close> row of the user and the song
  (the table is \<open>unique_together\<close> on the pair): the first of two successive calls
  inserts the row when there is none and deletes it otherwise, and reports the new
  state (true exactly when the song is now a favorite) in its JSON answer; the second
  call reports the opposite, and the number of rows of the pair is back at its
  original value, 0 when the song was not a favorite at the start.
\<close>

theorem toggle_favorite_twice:
  assumes song: "get_song st k = Some song"
    and le: "length (favorites_of st u k) \<le> 1"
  shows "\<exists>st1 st2.
           toggle_favorite st u t1 ajax k =
             (Inr (if ajax then JsonResponse_is_favorite (favorites_of st u k = [])
                   else Redirect (To_song_detail k)), st1)
         \<and> length (favorites_of st1 u k) = (if favorites_of st u k = [] then 1 else 0)
         \<and> toggle_favorite st1 u t2 ajax k =
             (Inr (if ajax then JsonResponse_is_favorite (favorites_of st u k \<noteq> [])
                   else Redirect (To_song_detail k)), st2)
         \<and> length (favorites_of st2 u k) = length (favorites_of st u k)"
proof -
  from le consider (absent) "favorites_of st u k = []" | (present) f where "favorites_of st u k = [f]"
    using length_le1_cases[of "favorites_of st u k"] by auto
  then show ?thesis
  proof cases
    case absent
    define f where "f = \<lparr>favorite_pk = new_pk (map favorite_pk (Favorite_objects st)),
                          favorite_user = user_id u, favorite_song = k, added_at = t1\<rparr>"
    define st1 where "st1 = st\<lparr>Favorite_objects := Favorite_objects st @ [f]\<rparr>"
    have t1: "toggle_favorite st u t1 ajax k =
           (Inr (if ajax then JsonResponse_is_favorite True else Redirect (To_song_detail k)), st1)"
      using toggle_absent[OF song absent] by (simp add: st1_def f_def)
    have f1: "favorites_of st1 u k = [f]"
      using absent by (simp add: favorites_of_def st1_def f_def)
    have song1: "get_song st1 k = Some song"
      using song by (simp add: get_song_def st1_def)
    have t2: "toggle_favorite st1 u t2 ajax k =
           (Inr (if ajax then JsonResponse_is_favorite False else Redirect (To_song_detail k)),
            st1\<lparr>Favorite_objects :=
                  filter (\<lambda>x. favorite_pk x \<noteq> favorite_pk f) (Favorite_objects st1)\<rparr>)"
      by (rule toggle_present[OF song1 f1])
    have f2: "favorites_of (st1\<lparr>Favorite_objects :=
                filter (\<lambda>x. favorite_pk x \<noteq> favorite_pk f) (Favorite_objects st1)\<rparr>) u k = []"
      using filter_singleton_delete[of _ "Favorite_objects st1" f favorite_pk] f1
      by (simp add: favorites_of_def)
    show ?thesis using t1 t2 f1 f2 absent by auto
  next
    case present
    define st1 where "st1 = st\<lparr>Favorite_objects :=
                        filter (\<lambda>x. favorite_pk x \<noteq> favorite_pk f) (Favorite_objects st)\<rparr>"
    have t1: "toggle_favorite st u t1 ajax k =
           (Inr (if ajax then JsonResponse_is_favorite False else Redirect (To_song_detail k)), st1)"
      using toggle_present[OF song present] by (simp add: st1_def)
    have f1: "favorites_of st1 u k = []"
      using filter_singleton_delete[of _ "Favorite_objects st" f favorite_pk] present
      by (simp add: favorites_of_def st1_def)
    have song1: "get_song st1 k = Some song"
      using song by (simp add: get_song_def st1_def)
    define g where "g = \<lparr>favorite_pk = new_pk (map favorite_pk (Favorite_objects st1)),
                          favorite_user = user_id u, favorite_song = k, added_at = t2\<rparr>"
    have t2: "toggle_favorite st1 u t2 ajax k =
           (Inr (if ajax then JsonResponse_is_favorite True else Redirect (To_song_detail k)),
            st1\<lparr>Favorite_objects := Favorite_objects st1 @ [g]\<rparr>)"
      using toggle_absent[OF song1 f1] by (simp add: g_def)
    have f2: "favorites_of (st1\<lparr>Favorite_objects := Favorite_objects st1 @ [g]\<rparr>) u k = [g]"
      using f1 by (simp add: favorites_of_def g_def)
    show ?thesis using t1 t2 f1 f2 present by auto
  qed
qed

theorem toggle_favorite_twice_witness:
  "\<exists>st1 st2.
     toggle_favorite demo_db bob 50 True 1 = (Inr (JsonResponse_is_favorite True), st1)
   \<and> length (favorites_of st1 bob 1) = 1
   \<and> toggle_favorite st1 bob 51 True 1 = (Inr (JsonResponse_is_favorite False), st2)
   \<and> length (favorites_of st2 bob 1) = 0"
proof -
  have s: "get_song demo_db 1 = Some airbag"
    by (simp add: get_song_def demo_db_def airbag_def)
  have e: "favorites_of demo_db bob 1 = []"
    by (simp add: favorites_of_def demo_db_def)
  show ?thesis
    using toggle_favorite_twice [of demo_db 1 airbag bob 50 True 51] s e by simp
qed

section \<open>Rating a song\<close>









section \<open>Catalog resolution\<close>

lemma get_or_create_absent:
  assumes "filter P rows = []" and "create rows = Inr (r, rows')"
  shows "get_or_create P create rows = Inr ((r, True), rows')"
  using assms by (simp add: get_or_create_def get_row_def)

lemma get_or_create_present:
  assumes "filter P rows = [r]"
  shows "get_or_create P create rows = Inr ((r, False), rows)"
  using assms by (simp add: get_or_create_def get_row_def)

lemma get_or_create_multiple:
  assumes "2 \<le> length (filter P rows)"
  shows "get_or_create P create rows = Inl MultipleObjectsReturned"
proof -
  from assms obtain a b cs where "filter P rows = a # b # cs"
    by (cases "filter P rows"; cases "tl (filter P rows)") auto
  then show ?thesis by (simp add: get_or_create_def get_row_def)
qed

lemma resolve_artist_twice:
  assumes "length (filter (\<lambda>a. artist_name a = py_strip raw) (Artist_objects st)) \<le> 1"
  shows "\<exists>a st1. resolve_artist st raw = Inr (a, st1) \<and> resolve_artist st1 raw = Inr (a, st1)
           \<and> filter (\<lambda>a. artist_name a = py_strip raw) (Artist_objects st1) = [a]"
proof -
  let ?P = "\<lambda>a. artist_name a = py_strip raw"
  from assms consider (absent) "filter ?P (Artist_objects st) = []"
    | (present) a0 where "filter ?P (Artist_objects st) = [a0]"
    using length_le1_cases[of "filter ?P (Artist_objects st)"] by auto
  then show ?thesis
  proof cases
    case absent
    define a where "a = \<lparr>artist_pk = new_pk (map artist_pk (Artist_objects st)),
                          artist_name = py_strip raw\<rparr>"
    define st1 where "st1 = st\<lparr>Artist_objects := Artist_objects st @ [a]\<rparr>"
    have c: "Artist_create (py_strip raw) (Artist_objects st) = Inr (a, Artist_objects st @ [a])"
      by (simp add: Artist_create_def a_def Let_def)
    have r1: "resolve_artist st raw = Inr (a, st1)"
      by (simp add: resolve_artist_def get_or_create_absent[where create = "Artist_create (py_strip raw)", OF absent c] st1_def)
    have f1: "filter ?P (Artist_objects st1) = [a]"
      using absent by (simp add: st1_def a_def)
    have r2: "resolve_artist st1 raw = Inr (a, st1)"
      using get_or_create_present[of ?P "Artist_objects st1" a] f1
      by (simp add: resolve_artist_def Let_def)
    from r1 r2 f1 show ?thesis by blast
  next
    case present
    have r1: "resolve_artist st raw = Inr (a0, st)"
      by (simp add: resolve_artist_def get_or_create_present[OF present])
    from r1 present show ?thesis by blast
  qed
qed

lemma resolve_album_twice:
  assumes "length (filter (\<lambda>a. album_title a = py_strip raw \<and> album_artist a = ar)
                     (Album_objects st)) \<le> 1"
  shows "\<exists>a st1. resolve_album st raw ar = Inr (a, st1) \<and> resolve_album st1 raw ar = Inr (a, st1)
           \<and> filter (\<lambda>a. album_title a = py_strip raw \<and> album_artist a = ar)
                (Album_objects st1) = [a]"
proof -
  let ?P = "\<lambda>a. album_title a = py_strip raw \<and> album_artist a = ar"
  from assms consider (absent) "filter ?P (Album_objects st) = []"
    | (present) a0 where "filter ?P (Album_objects st) = [a0]"
    using length_le1_cases[of "filter ?P (Album_objects st)"] by auto
  then show ?thesis
  proof cases
    case absent
    define a where "a = \<lparr>album_pk = new_pk (map album_pk (Album_objects st)),
                          album_title = py_strip raw, album_artist = ar\<rparr>"
    define st1 where "st1 = st\<lparr>Album_objects := Album_objects st @ [a]\<rparr>"
    have c: "Album_create (py_strip raw) ar (Album_objects st) = Inr (a, Album_objects st @ [a])"
      by (simp add: Album_create_def a_def Let_def)
    have r1: "resolve_album st raw ar = Inr (a, st1)"
      by (simp add: resolve_album_def get_or_create_absent[where create = "Album_create (py_strip raw) ar", OF absent c] st1_def)
    have f1: "filter ?P (Album_objects st1) = [a]"
      using absent by (simp add: st1_def a_def)
    have r2: "resolve_album st1 raw ar = Inr (a, st1)"
      using get_or_create_present[of ?P "Album_objects st1" a] f1
      by (simp add: resolve_album_def Let_def)
    from r1 r2 f1 show ?thesis by blast
  next
    case present
    have r1: "resolve_album st raw ar = Inr (a0, st)"
      by (simp add: resolve_album_def get_or_create_present[OF present])
    from r1 present show ?thesis by blast
  qed
qed

lemma resolve_genre_twice:
  assumes "length (filter (\<lambda>g. genre_name g = py_strip raw) (Genre_objects st)) \<le> 1"
  shows "\<exists>g st1. resolve_genre st raw = Inr (g, st1) \<and> resolve_genre st1 raw = Inr (g, st1)
           \<and> filter (\<lambda>g. genre_name g = py_strip raw) (Genre_objects st1) = [g]"
proof -
  let ?P = "\<lambda>g. genre_name g = py_strip raw"
  from assms consider (absent) "filter ?P (Genre_objects st) = []"
    | (present) g0 where "filter ?P (Genre_objects st) = [g0]"
    using length_le1_cases[of "filter ?P (Genre_objects st)"] by auto
  then show ?thesis
  proof cases
    case absent
    define g where "g = \<lparr>genre_pk = new_pk (map genre_pk (Genre_objects st)),
                          genre_name = py_strip raw\<rparr>"
    define st1 where "st1 = st\<lparr>Genre_objects := Genre_objects st @ [g]\<rparr>"
    have "py_strip raw \<notin> set (map genre_name (Genre_objects st))"
      using absent by (auto simp: filter_empty_conv)
    then have c: "Genre_create (py_strip raw) (Genre_objects st) = Inr (g, Genre_objects st @ [g])"
      by (simp add: Genre_create_def g_def Let_def)
    have r1: "resolve_genre st raw = Inr (g, st1)"
      by (simp add: resolve_genre_def get_or_create_absent[where create = "Genre_create (py_strip raw)", OF absent c] st1_def)
    have f1: "filter ?P (Genre_objects st1) = [g]"
      using absent by (simp add: st1_def g_def)
    have r2: "resolve_genre st1 raw = Inr (g, st1)"
      using get_or_create_present[of ?P "Genre_objects st1" g] f1
      by (simp add: resolve_genre_def Let_def)
    from r1 r2 f1 show ?thesis by blast
  next
    case present
    have r1: "resolve_genre st raw = Inr (g0, st)"
      by (simp add: resolve_genre_def get_or_create_present[OF present])
    from r1 present show ?thesis by blast
  qed
qed

lemma Genre_create_unique:
  assumes "distinct (map genre_name rows)"
  shows "case Genre_create n rows of
           Inl e \<Rightarrow> e = IntegrityError \<and> n \<in> set (map genre_name rows)
         | Inr (g, rows') \<Rightarrow> distinct (map genre_name rows') \<and> n \<notin> set (map genre_name rows)"
  using assms by (auto simp: Genre_create_def Let_def)

text \<open>
  C3 (as the code has it). Resolution trims the name and, run twice one call after the
  other on a store with at most one row of the key, returns the same row both times
  and leaves exactly one row of the key: for artists by name, for albums by title and
  artist, for genres by name. Only \<open>Genre.name\<close> is backed by a unique constraint: an
  insert of a name that exists is refused there and the names stay distinct. The
  \<open>Artist\<close> and \<open>Album\<close> tables accept a second row of a key that exists, and with two or
  more rows of the key in the store resolution fails with \<open>MultipleObjectsReturned\<close>.
\<close>

theorem catalog_resolution:
  "(py_strip raw' = py_strip raw \<longrightarrow> resolve_artist st raw' = resolve_artist st raw)
   \<and> (length (filter (\<lambda>a. artist_name a = py_strip raw) (Artist_objects st)) \<le> 1 \<longrightarrow>
        (\<exists>a st1. resolve_artist st raw = Inr (a, st1) \<and> resolve_artist st1 raw = Inr (a, st1)
           \<and> filter (\<lambda>a. artist_name a = py_strip raw) (Artist_objects st1) = [a]))
   \<and> (length (filter (\<lambda>a. album_title a = py_strip raw \<and> album_artist a = ar)
                 (Album_objects st)) \<le> 1 \<longrightarrow>
        (\<exists>a st1. resolve_album st raw ar = Inr (a, st1) \<and> resolve_album st1 raw ar = Inr (a, st1)
           \<and> filter (\<lambda>a. album_title a = py_strip raw \<and> album_artist a = ar)
                (Album_objects st1) = [a]))
   \<and> (length (filter (\<lambda>g. genre_name g = py_strip raw) (Genre_objects st)) \<le> 1 \<longrightarrow>
        (\<exists>g st1. resolve_genre st raw = Inr (g, st1) \<and> resolve_genre st1 raw = Inr (g, st1)
           \<and> filter (\<lambda>g. genre_name g = py_strip raw) (Genre_objects st1) = [g]))
   \<and> (distinct (map genre_name rows) \<longrightarrow>
        (case Genre_create n rows of
           Inl e \<Rightarrow> e = IntegrityError \<and> n \<in> set (map genre_name rows)
         | Inr (g, rows') \<Rightarrow> distinct (map genre_name rows') \<and> n \<notin> set (map genre_name rows)))
   \<and> (\<exists>a. Artist_create n arows = Inr (a, arows @ [a]) \<and> artist_name a = n)
   \<and> (\<exists>a. Album_create n ar brows = Inr (a, brows @ [a]) \<and> album_title a = n \<and> album_artist a = ar)
   \<and> (2 \<le> length (filter (\<lambda>a. artist_name a = py_strip raw) (Artist_objects st)) \<longrightarrow>
        resolve_artist st raw = Inl MultipleObjectsReturned)
   \<and> (2 \<le> length (filter (\<lambda>a. album_title a = py_strip raw \<and> album_artist a = ar)
                     (Album_objects st)) \<longrightarrow>
        resolve_album st raw ar = Inl MultipleObjectsReturned)"
proof (intro conjI impI)
  assume "py_strip raw' = py_strip raw"
  then show "resolve_artist st raw' = resolve_artist st raw"
    by (simp add: resolve_artist_def)
next
  assume "length (filter (\<lambda>a. artist_name a = py_strip raw) (Artist_objects st)) \<le> 1"
  then show "\<exists>a st1. resolve_artist st raw = Inr (a, st1) \<and> resolve_artist st1 raw = Inr (a, st1)
           \<and> filter (\<lambda>a. artist_name a = py_strip raw) (Artist_objects st1) = [a]"
    by (rule resolve_artist_twice)
next
  assume "length (filter (\<lambda>a. album_title a = py_strip raw \<and> album_artist a = ar)
                 (Album_objects st)) \<le> 1"
  then show "\<exists>a st1. resolve_album st raw ar = Inr (a, st1) \<and> resolve_album st1 raw ar = Inr (a, st1)
           \<and> filter (\<lambda>a. album_title a = py_strip raw \<and> album_artist a = ar)
                (Album_objects st1) = [a]"
    by (rule resolve_album_twice)
next
  assume "length (filter (\<lambda>g. genre_name g = py_strip raw) (Genre_objects st)) \<le> 1"
  then show "\<exists>g st1. resolve_genre st raw = Inr (g, st1) \<and> resolve_genre st1 raw = Inr (g, st1)
           \<and> filter (\<lambda>g. genre_name g = py_strip raw) (Genre_objects st1) = [g]"
    by (rule resolve_genre_twice)
next
  assume "distinct (map genre_name rows)"
  then show "case Genre_create n rows of
           Inl e \<Rightarrow> e = IntegrityError \<and> n \<in> set (map genre_name rows)
         | Inr (g, rows') \<Rightarrow> distinct (map genre_name rows') \<and> n \<notin> set (map genre_name rows)"
    by (rule Genre_create_unique)
next
  show "\<exists>a. Artist_create n arows = Inr (a, arows @ [a]) \<and> artist_name a = n"
    by (simp add: Artist_create_def Let_def)
next
  show "\<exists>a. Album_create n ar brows = Inr (a, brows @ [a]) \<and> album_title a = n \<and> album_artist a = ar"
    by (simp add: Album_create_def Let_def)
next
  assume "2 \<le> length (filter (\<lambda>a. artist_name a = py_strip raw) (Artist_objects st))"
  then show "resolve_artist st raw = Inl MultipleObjectsReturned"
    by (simp add: resolve_artist_def get_or_create_multiple)
next
  assume "2 \<le> length (filter (\<lambda>a. album_title a = py_strip raw \<and> album_artist a = ar)
                     (Album_objects st))"
  then show "resolve_album st raw ar = Inl MultipleObjectsReturned"
    by (simp add: resolve_album_def get_or_create_multiple)
qed


theorem catalog_resolution_witness:
  "\<exists>a st1. resolve_artist demo_db '' Radiohead '' = Inr (a, st1)
      \<and> resolve_artist st1 '' Radiohead '' = Inr (a, st1)
      \<and> filter (\<lambda>a. artist_name a = ''Radiohead'') (Artist_objects st1) = [a]"
proof -
  have t: "py_strip '' Radiohead '' = ''Radiohead''" by code_simp
  have l: "length (filter (\<lambda>a. artist_name a = ''Radiohead'') (Artist_objects demo_db)) \<le> 1"
    by (simp add: demo_db_def)
  from catalog_resolution [of "'' Radiohead ''" "'' Radiohead ''" demo_db] l
  show ?thesis unfolding t by blast
qed

text \<open>
  The store does not keep artist names unique: inserting the name of the one artist of
  the small store again succeeds, the table then holds two rows of that name, and
  resolving it raises \<open>MultipleObjectsReturned\<close>.
\<close>

theorem artist_name_not_unique:
  "Artist_create ''Radiohead'' (Artist_objects demo_db) =
     Inr (\<lparr>artist_pk = 2, artist_name = ''Radiohead''\<rparr>,
          [\<lparr>artist_pk = 1, artist_name = ''Radiohead''\<rparr>,
           \<lparr>artist_pk = 2, artist_name = ''Radiohead''\<rparr>])
   \<and> resolve_artist
        (demo_db\<lparr>Artist_objects := [\<lparr>artist_pk = 1, artist_name = ''Radiohead''\<rparr>,
                                     \<lparr>artist_pk = 2, artist_name = ''Radiohead''\<rparr>]\<rparr>)
        ''Radiohead'' = Inl MultipleObjectsReturned"
proof -
  have t: "py_strip ''Radiohead'' = ''Radiohead''" by code_simp
  have "Artist_create ''Radiohead'' (Artist_objects demo_db) =
     Inr (\<lparr>artist_pk = 2, artist_name = ''Radiohead''\<rparr>,
          [\<lparr>artist_pk = 1, artist_name = ''Radiohead''\<rparr>,
           \<lparr>artist_pk = 2, artist_name = ''Radiohead''\<rparr>])"
    by (simp add: Artist_create_def demo_db_def new_pk_def Let_def numeral_2_eq_2)
  moreover have "resolve_artist
        (demo_db\<lparr>Artist_objects := [\<lparr>artist_pk = 1, artist_name = ''Radiohead''\<rparr>,
                                     \<lparr>artist_pk = 2, artist_name = ''Radiohead''\<rparr>]\<rparr>)
        ''Radiohead'' = Inl MultipleObjectsReturned"
    by (simp add: resolve_artist_def t get_or_create_def get_row_def)
  ultimately show ?thesis by blast
qed

section \<open>Access checks of the views\<close>

lemma get_playlist_of_None:
  assumes "\<forall>p \<in> set (Playlist_objects st). playlist_pk p = k \<longrightarrow> playlist_user p \<noteq> user_id u"
  shows "get_playlist_of st k u = None"
  using assms by (auto simp: get_playlist_of_def find_None_iff)

text \<open>
  C1 (as the code has it). Each of these views reads the row from the store at the
  time of the call and decides on its current columns. \<open>song_detail\<close> and
  \<open>download_song\<close> refuse a song that is not public to everyone but its uploader;
  \<open>edit_song\<close> and \<open>delete_song\<close> refuse a caller who is neither the uploader nor
  staff; \<open>playlist_detail\<close> refuses a playlist that is not public to everyone but its
  owner. A refusal is the permission message with a redirect, and the store is left
  as it was. \<open>edit_playlist\<close> and \<open>delete_playlist\<close> look the playlist up among the
  caller's own: for any other caller, staff or not, the answer is \<open>Http404\<close>, and the
  store is left as it was. The uploader or a staff member does delete the song.
\<close>

theorem access_checks:
  "(\<forall>song. get_song st k = Some song \<and> \<not> is_public song \<and> uploaded_by song \<noteq> user_id u \<longrightarrow>
       song_detail st u k = PermissionDenied To_home
     \<and> download_song st u k = (PermissionDenied To_home, st))
   \<and> (\<forall>song. get_song st k = Some song \<and> uploaded_by song \<noteq> user_id u \<and> \<not> is_staff u \<longrightarrow>
       edit_song st u k req = (PermissionDenied (To_song_detail k), st)
     \<and> delete_song st u k = (PermissionDenied (To_song_detail k), st))
   \<and> (\<forall>song. get_song st k = Some song \<and> (uploaded_by song = user_id u \<or> is_staff u) \<longrightarrow>
       delete_song st u k = (Redirect To_song_list, Song_delete st k))
   \<and> (\<forall>p. get_playlist st k = Some p \<and> \<not> playlist_is_public p \<and> playlist_user p \<noteq> user_id u \<longrightarrow>
       playlist_detail st u k = PermissionDenied To_playlist_list)
   \<and> ((\<forall>p \<in> set (Playlist_objects st). playlist_pk p = k \<longrightarrow> playlist_user p \<noteq> user_id u) \<longrightarrow>
       edit_playlist st u k preq = (Http404, st) \<and> delete_playlist st u k = (Http404, st))"
proof (intro conjI allI impI)
  fix song
  assume a: "get_song st k = Some song \<and> \<not> is_public song \<and> uploaded_by song \<noteq> user_id u"
  then show "song_detail st u k = PermissionDenied To_home"
    by (simp add: song_detail_def)
  from a show "download_song st u k = (PermissionDenied To_home, st)"
    by (simp add: download_song_def)
next
  fix song
  assume a: "get_song st k = Some song \<and> uploaded_by song \<noteq> user_id u \<and> \<not> is_staff u"
  then have pk: "pk song = k" using get_song_Some by blast
  from a pk show "edit_song st u k req = (PermissionDenied (To_song_detail k), st)"
    by (simp add: edit_song_def)
  from a pk show "delete_song st u k = (PermissionDenied (To_song_detail k), st)"
    by (simp add: delete_song_def)
next
  fix song
  assume a: "get_song st k = Some song \<and> (uploaded_by song = user_id u \<or> is_staff u)"
  then have pk: "pk song = k" using get_song_Some by blast
  from a pk show "delete_song st u k = (Redirect To_song_list, Song_delete st k)"
    by (auto simp: delete_song_def)
next
  fix p
  assume "get_playlist st k = Some p \<and> \<not> playlist_is_public p \<and> playlist_user p \<noteq> user_id u"
  then show "playlist_detail st u k = PermissionDenied To_playlist_list"
    by (simp add: playlist_detail_def)
next
  assume a: "\<forall>p \<in> set (Playlist_objects st). playlist_pk p = k \<longrightarrow> playlist_user p \<noteq> user_id u"
  show "edit_playlist st u k preq = (Http404, st)"
    by (simp add: edit_playlist_def get_playlist_of_None[OF a])
  show "delete_playlist st u k = (Http404, st)"
    by (simp add: delete_playlist_def get_playlist_of_None[OF a])
qed

theorem access_checks_witness:
  "get_song demo_db 2 = Some bones
   \<and> song_detail demo_db bob 2 = PermissionDenied To_home
   \<and> download_song demo_db bob 2 = (PermissionDenied To_home, demo_db)
   \<and> edit_song demo_db bob 2 GET = (PermissionDenied (To_song_detail 2), demo_db)
   \<and> delete_song demo_db bob 2 = (PermissionDenied (To_song_detail 2), demo_db)
   \<and> delete_song demo_db staff 2 = (Redirect To_song_list, Song_delete demo_db 2)
   \<and> playlist_detail demo_db bob 1 = PermissionDenied To_playlist_list
   \<and> delete_playlist demo_db staff 1 = (Http404, demo_db)"
proof -
  have s: "get_song demo_db 2 = Some bones" "\<not> is_public bones" "uploaded_by bones = 1"
    by (simp_all add: get_song_def demo_db_def airbag_def bones_def)
  have p: "get_playlist demo_db 1 = Some mix" "\<not> playlist_is_public mix" "playlist_user mix = 1"
    "Playlist_objects demo_db = [mix]"
    by (simp_all add: get_playlist_def demo_db_def mix_def)
  have u: "user_id bob = 2" "\<not> is_staff bob" "user_id staff = 3" "is_staff staff"
    by (simp_all add: bob_def staff_def)
  from access_checks [of demo_db 2 bob GET GET] s u
  have 1: "song_detail demo_db bob 2 = PermissionDenied To_home"
    and 2: "download_song demo_db bob 2 = (PermissionDenied To_home, demo_db)"
    and 3: "edit_song demo_db bob 2 GET = (PermissionDenied (To_song_detail 2), demo_db)"
    and 4: "delete_song demo_db bob 2 = (PermissionDenied (To_song_detail 2), demo_db)"
    by simp_all
  from access_checks [of demo_db 2 staff GET GET] s u
  have 5: "delete_song demo_db staff 2 = (Redirect To_song_list, Song_delete demo_db 2)"
    by simp
  from access_checks [of demo_db 1 bob GET GET] p u
  have 6: "playlist_detail demo_db bob 1 = PermissionDenied To_playlist_list"
    by simp
  from access_checks [of demo_db 1 staff GET GET] p u
  have 7: "delete_playlist demo_db staff 1 = (Http404, demo_db)"
    by simp
  from s(1) 1 2 3 4 5 6 7 show ?thesis by blast
qed

text \<open>
  Bob is neither the uploader of the private song 2 nor staff, and does not own
  playlist 1: \<open>play_song\<close> on song 2 succeeds for him and counts the play, and
  \<open>edit_playlist\<close> on playlist 1 answers \<open>Http404\<close>, not the permission refusal.
\<close>

theorem play_song_unchecked_playlist_404:
  "get_song demo_db 2 = Some bones \<and> \<not> is_public bones \<and> uploaded_by bones \<noteq> user_id bob
   \<and> \<not> is_staff bob
   \<and> fst (play_song demo_db bob 40 2) = JsonResponse_play 1
   \<and> map_option play_count (get_song (snd (play_song demo_db bob 40 2)) 2) = Some 1
   \<and> plays_of (snd (play_song demo_db bob 40 2)) bob 2 = 1
   \<and> get_playlist demo_db 1 = Some mix \<and> playlist_user mix \<noteq> user_id bob
   \<and> edit_playlist demo_db bob 1 GET = (Http404, demo_db)"
proof -
  have s: "get_song demo_db 2 = Some bones" "\<not> is_public bones" "uploaded_by bones \<noteq> user_id bob"
    "\<not> is_staff bob" "play_count bones = 0" "plays_of demo_db bob 2 = 0"
    by (simp_all add: get_song_def demo_db_def airbag_def bones_def bob_def plays_of_def)
  have p: "get_playlist demo_db 1 = Some mix" "playlist_user mix \<noteq> user_id bob"
    "get_playlist_of demo_db 1 bob = None"
    by (simp_all add: get_playlist_def get_playlist_of_def demo_db_def mix_def bob_def)
  have e: "edit_playlist demo_db bob 1 GET = (Http404, demo_db)"
    using p(3) by (simp add: edit_playlist_def)
  from play_song_step[OF s(1), of bob 40] s(5,6)
  have "fst (play_song demo_db bob 40 2) = JsonResponse_play 1"
    and "map_option play_count (get_song (snd (play_song demo_db bob 40 2)) 2) = Some 1"
    and "plays_of (snd (play_song demo_db bob 40 2)) bob 2 = 1"
    by simp_all
  with s p e show ?thesis by blast
qed

section \<open>Sort keys of the song listing\<close>

text \<open>
  C5. The view's allow-list holds four keys; \<open>upload_date\<close> (oldest first) and \<open>-title\<close>,
  which \<open>SongSearchForm.sort_by\<close> offers, are not among them. Asked for \<open>upload_date\<close>,
  the listing of the small store comes newest first, exactly as with no sort key:
  \<open>bones\<close> (uploaded at 20) before \<open>airbag\<close> (uploaded at 10).
\<close>

theorem sort_upload_date_not_accepted:
  "''upload_date'' \<notin> set valid_sorts \<and> ''-title'' \<notin> set valid_sorts
   \<and> upload_date airbag < upload_date bones
   \<and> song_list_queryset py_int demo_db (list_request alice (Some ''upload_date'') None)
       = Inr [bones, airbag]
   \<and> song_list_queryset py_int demo_db (list_request alice None None) = Inr [bones, airbag]"
  by (simp add: song_list_queryset_def list_request_def id_filter_def demo_db_def visible_to_def
      airbag_def bones_def alice_def valid_sorts_def Song_Meta_ordering_def order_by_def)

section \<open>Pagination of the listings\<close>

lemma num_pages_pos:
  assumes "0 < per_page p"
  shows "1 \<le> num_pages p"
proof -
  have "per_page p \<le> max 1 (length (object_list p)) + per_page p - 1" by simp
  then have "per_page p div per_page p \<le> (max 1 (length (object_list p)) + per_page p - 1) div per_page p"
    by (rule div_le_mono)
  then show ?thesis using assms by (simp add: num_pages_def)
qed

lemma slice_page:
  "take ((if b + n \<ge> length xs then length xs else b + n) - b) (drop b xs) = take n (drop b xs)"
  by auto

lemma Paginator_page_valid:
  assumes "(case a of PyNone \<Rightarrow> None | PyStr s \<Rightarrow> int_of s | PyInt i \<Rightarrow> Some i) = Some n"
    and "1 \<le> n" and "n \<le> int (num_pages p)"
  shows "Paginator_page int_of p a =
           Inr \<lparr>page_object_list = take (per_page p) (drop ((nat n - 1) * per_page p) (object_list p)),
                number = nat n\<rparr>"
  using assms by (simp add: Paginator_page_def validate_number_def Let_def slice_page)

lemma Paginator_page_not_int:
  assumes "(case a of PyNone \<Rightarrow> None | PyStr s \<Rightarrow> int_of s | PyInt i \<Rightarrow> Some i) = None"
  shows "Paginator_page int_of p a = Inl PageNotAnInteger"
  using assms by (simp add: Paginator_page_def validate_number_def)

lemma Paginator_page_empty:
  assumes "(case a of PyNone \<Rightarrow> None | PyStr s \<Rightarrow> int_of s | PyInt i \<Rightarrow> Some i) = Some n"
    and "n < 1 \<or> n > int (num_pages p)"
  shows "Paginator_page int_of p a = Inl EmptyPage"
  using assms by (auto simp: Paginator_page_def validate_number_def)

lemma ceil_div_bounds:
  fixes m n :: nat
  assumes "0 < n" and "1 \<le> m"
  shows "((m + n - 1) div n - 1) * n < m" and "m \<le> (m + n - 1) div n * n"
proof -
  define q where "q = (m + n - 1) div n"
  define x where "x = q * n"
  have le: "x \<le> m + n - 1"
    unfolding x_def q_def by (rule div_times_less_eq_dividend)
  have lt: "m + n - 1 < n + x"
    unfolding x_def q_def using assms(1) by (rule dividend_less_div_times)
  have "(q - 1) * n = x - n" by (simp add: x_def diff_mult_distrib)
  also have "\<dots> < m" using le assms by arith
  finally show "((m + n - 1) div n - 1) * n < m" unfolding q_def .
  from lt assms(2) have "m \<le> x" by arith
  then show "m \<le> (m + n - 1) div n * n" unfolding x_def q_def .
qed

lemma num_pages_bounds:
  assumes "0 < per_page p"
  shows "(num_pages p - 1) * per_page p < max 1 (length (object_list p))"
    and "max 1 (length (object_list p)) \<le> num_pages p * per_page p"
  unfolding num_pages_def
  by (rule ceil_div_bounds[OF assms], simp)+

lemma page_or_fallback_served:
  assumes pos: "0 < per_page p"
  shows "\<exists>pg. page_or_fallback int_of p v = Inr pg \<and> served_page int_of p v pg"
proof -
  note np = num_pages_pos[OF pos]
  note nb = num_pages_bounds[OF pos]
  have first: "Paginator_page int_of p (PyInt 1) =
      Inr \<lparr>page_object_list = take (per_page p) (drop ((nat 1 - 1) * per_page p) (object_list p)),
           number = nat 1\<rparr>"
    by (rule Paginator_page_valid) (use np in simp_all)
  have last: "Paginator_page int_of p (PyInt (int (num_pages p))) =
      Inr \<lparr>page_object_list = take (per_page p)
             (drop ((nat (int (num_pages p)) - 1) * per_page p) (object_list p)),
           number = nat (int (num_pages p))\<rparr>"
    by (rule Paginator_page_valid) (use np in simp_all)
  let ?a = "case GET_arg v of PyNone \<Rightarrow> None | PyStr s \<Rightarrow> int_of s | PyInt i \<Rightarrow> Some i"
  show ?thesis
  proof (cases ?a)
    case None
    then have "Paginator_page int_of p (GET_arg v) = Inl PageNotAnInteger"
      by (rule Paginator_page_not_int)
    then have "page_or_fallback int_of p v =
        Inr \<lparr>page_object_list = take (per_page p) (drop 0 (object_list p)), number = 1\<rparr>"
      using first by (simp add: page_or_fallback_def)
    moreover have "(case v of None \<Rightarrow> 1 | Some s \<Rightarrow> (case int_of s of None \<Rightarrow> 1
        | Some n \<Rightarrow> if 1 \<le> n \<and> n \<le> int (num_pages p) then nat n else num_pages p)) = 1"
      using None by (cases v) (simp_all add: GET_arg_def)
    ultimately show ?thesis using np nb by (simp add: served_page_def)
  next
    case (Some n)
    then obtain s where v: "v = Some s" and s: "int_of s = Some n"
      by (cases v) (simp_all add: GET_arg_def)
    show ?thesis
    proof (cases "1 \<le> n \<and> n \<le> int (num_pages p)")
      case True
      then have "Paginator_page int_of p (GET_arg v) =
          Inr \<lparr>page_object_list = take (per_page p) (drop ((nat n - 1) * per_page p) (object_list p)),
               number = nat n\<rparr>"
        by (intro Paginator_page_valid[OF Some]) simp_all
      moreover from True have "Suc 0 \<le> nat n" "nat n \<le> num_pages p" by linarith+
      ultimately show ?thesis
        using True nb by (simp add: page_or_fallback_def served_page_def v s)
    next
      case False
      then have "Paginator_page int_of p (GET_arg v) = Inl EmptyPage"
        by (intro Paginator_page_empty[OF Some]) auto
      then show ?thesis
        using False last np nb by (auto simp: page_or_fallback_def served_page_def v s)
    qed
  qed
qed

lemma annotated_rows_raise:
  "annotated_rows st rows = (if rows = [] then Inr [] else Inl AttributeError)"
  by (cases rows) (simp_all add: annotate_row_def Artist_properties_def)

lemma served_page_nonempty:
  assumes "served_page int_of p v pg" and "object_list p \<noteq> []" and "0 < per_page p"
  shows "page_object_list pg \<noteq> []"
proof -
  from assms(1) have n: "number pg \<le> num_pages p"
    and b: "(num_pages p - 1) * per_page p < max 1 (length (object_list p))"
    and l: "page_object_list pg
              = take (per_page p) (drop ((number pg - 1) * per_page p) (object_list p))"
    by (simp_all add: served_page_def)
  have "(number pg - 1) * per_page p \<le> (num_pages p - 1) * per_page p"
    by (rule mult_le_mono1[OF diff_le_mono[OF n]])
  then have "(number pg - 1) * per_page p < max 1 (length (object_list p))"
    using b by (rule le_less_trans)
  with assms(2) have "(number pg - 1) * per_page p < length (object_list p)"
    by (cases "object_list p") simp_all
  with assms(3) show ?thesis by (simp add: l)
qed

lemma served_page_empty:
  assumes "served_page int_of p v pg" and "object_list p = []" and "0 < per_page p"
  shows "page_object_list pg = [] \<and> number pg = 1"
proof -
  from assms(1) have n: "1 \<le> number pg" "number pg \<le> num_pages p"
    and l: "page_object_list pg
              = take (per_page p) (drop ((number pg - 1) * per_page p) (object_list p))"
    by (simp_all add: served_page_def)
  have "num_pages p = 1" using assms(2,3) by (simp add: num_pages_def)
  with n l assms(2) show ?thesis by simp
qed

lemma artist_list_result:
  "artist_list int_of st v =
     (if Artist_objects st = [] then Inr \<lparr>page_object_list = [], number = 1\<rparr>
      else Inl AttributeError)"
proof -
  let ?p = "\<lparr>object_list = artist_list_queryset st, per_page = 24\<rparr>"
  from page_or_fallback_served[of ?p int_of v] obtain pg where
    pg: "page_or_fallback int_of ?p v = Inr pg" and sp: "served_page int_of ?p v pg"
    by auto
  have e: "artist_list_queryset st = [] \<longleftrightarrow> Artist_objects st = []"
    by (metis artist_list_queryset_def length_0_conv length_sort)
  show ?thesis
  proof (cases "Artist_objects st = []")
    case True
    with served_page_empty[OF sp] e have "page_object_list pg = []" "number pg = 1" by simp_all
    then show ?thesis using True by (simp add: artist_list_def pg annotated_rows_raise)
  next
    case False
    with served_page_nonempty[OF sp] e have "page_object_list pg \<noteq> []" by simp
    then show ?thesis using False by (simp add: artist_list_def pg annotated_rows_raise)
  qed
qed

text \<open>
  C9. The listings are paginated at 20 songs, 24 artists and 50 plays to a page.
  \<open>song_list\<close> (when its filter parameters are accepted) and \<open>play_history\<close> answer
  every \<open>page\<close> parameter with a page: page 1 when the parameter is missing or not a
  number, the requested page when it exists, the last page for a number beyond it (or
  below 1), where the number of pages is the least that holds all rows.
  \<open>artist_list\<close> does so only for an empty artist table: with any artist in the store
  the rows of the page cannot be built and the view raises \<open>AttributeError\<close>, whatever
  the \<open>page\<close> parameter.
\<close>

theorem pagination_of_the_views:
  "(\<forall>xs. song_list_queryset int_of st req = Inr xs \<longrightarrow>
      (\<exists>pg. song_list int_of st req = Inr pg
           \<and> served_page int_of \<lparr>object_list = xs, per_page = 20\<rparr> (GET_page req) pg))
   \<and> (\<exists>pg. play_history int_of st u v = Inr pg
           \<and> served_page int_of \<lparr>object_list = play_history_queryset st u, per_page = 50\<rparr> v pg)
   \<and> artist_list int_of st v =
        (if Artist_objects st = [] then Inr \<lparr>page_object_list = [], number = 1\<rparr>
         else Inl AttributeError)"
proof (intro conjI allI impI)
  fix xs assume q: "song_list_queryset int_of st req = Inr xs"
  from page_or_fallback_served[of "\<lparr>object_list = xs, per_page = 20\<rparr>" int_of "GET_page req"]
  show "\<exists>pg. song_list int_of st req = Inr pg
          \<and> served_page int_of \<lparr>object_list = xs, per_page = 20\<rparr> (GET_page req) pg"
    by (auto simp: song_list_def q)
next
  from page_or_fallback_served[of "\<lparr>object_list = play_history_queryset st u, per_page = 50\<rparr>" int_of v]
  show "\<exists>pg. play_history int_of st u v = Inr pg
          \<and> served_page int_of \<lparr>object_list = play_history_queryset st u, per_page = 50\<rparr> v pg"
    by (auto simp: play_history_def)
next
  show "artist_list int_of st v =
        (if Artist_objects st = [] then Inr \<lparr>page_object_list = [], number = 1\<rparr>
         else Inl AttributeError)"
    by (rule artist_list_result)
qed

theorem pagination_of_the_views_witness:
  "song_list py_int big_db (list_request alice None (Some ''9999''))
     = Inr \<lparr>page_object_list = [numbered_song 1], number = 2\<rparr>
   \<and> (\<exists>pg. song_list py_int big_db (list_request alice None (Some ''abc'')) = Inr pg
         \<and> number pg = 1 \<and> length (page_object_list pg) = 20
         \<and> numbered_song 1 \<notin> set (page_object_list pg))
   \<and> artist_list py_int demo_db (Some ''abc'') = Inl AttributeError"
proof -
  have abc: "py_int ''abc'' = None" by code_simp
  have big: "py_int ''9999'' = Some 9999" by code_simp
  have srt: "sort_key (\<lambda>s. - upload_date s) numbered_songs = numbered_songs"
    by (rule sort_key_id_if_sorted) (simp add: numbered_songs_def numbered_song_def)
  have vis: "filter (visible_to alice) numbered_songs = numbered_songs"
    by (simp add: numbered_songs_def visible_to_def numbered_song_def)
  have q: "song_list_queryset py_int big_db (list_request alice None page) = Inr numbered_songs"
    for page
    by (simp add: song_list_queryset_def list_request_def id_filter_def big_db_def
        valid_sorts_def Song_Meta_ordering_def order_by_def vis srt)
  have n: "num_pages \<lparr>object_list = numbered_songs, per_page = 20\<rparr> = 2"
    by (simp add: num_pages_def numbered_songs_def)
  have g: "GET_page (list_request alice None page) = page" for page
    by (simp add: list_request_def)
  have d: "drop 20 numbered_songs = [numbered_song 1]"
    by (simp add: numbered_songs_def)
  have t: "length (take 20 numbered_songs) = 20"
    "numbered_song 1 \<notin> set (take 20 numbered_songs)"
    by (simp_all add: numbered_songs_def numbered_song_def)
  from pagination_of_the_views [of py_int big_db "list_request alice None (Some ''9999'')"] q
  obtain pg2 where
    p2: "song_list py_int big_db (list_request alice None (Some ''9999'')) = Inr pg2"
    and s2: "served_page py_int \<lparr>object_list = numbered_songs, per_page = 20\<rparr>
               (Some ''9999'') pg2"
    unfolding g by blast
  from pagination_of_the_views [of py_int big_db "list_request alice None (Some ''abc'')"] q
  obtain pg1 where
    p1: "song_list py_int big_db (list_request alice None (Some ''abc'')) = Inr pg1"
    and s1: "served_page py_int \<lparr>object_list = numbered_songs, per_page = 20\<rparr>
               (Some ''abc'') pg1"
    unfolding g by blast
  from s2 have "number pg2 = 2 \<and> page_object_list pg2 = [numbered_song 1]"
    by (simp add: served_page_def big n d)
  then have r2: "pg2 = \<lparr>page_object_list = [numbered_song 1], number = 2\<rparr>" by simp
  from s1 have r1: "number pg1 = 1 \<and> page_object_list pg1 = take 20 numbered_songs"
    by (simp add: served_page_def abc n)
  have a: "artist_list py_int demo_db (Some ''abc'') = Inl AttributeError"
    using pagination_of_the_views [of py_int demo_db "list_request alice None None" alice "Some ''abc''"]
    by (simp add: demo_db_def)
  from p2 r2 p1 r1 t a show ?thesis by auto
qed

section \<open>Visibility of newly created songs and playlists\<close>












section \<open>The most-played statistics\<close>

lemma most_played_unfold:
  "most_played rank st u =
     take 10 (sort_key (\<lambda>(k, c). - int c)
       (sort_key (\<lambda>(k, c). rank (PlayHistory_objects st) k)
         (map (\<lambda>k. (k, plays_of st u k))
            (sort (remdups (map history_song
               (filter (\<lambda>h. history_user h = user_id u) (PlayHistory_objects st))))))))"
proof -
  have "length (filter (\<lambda>h. history_song h = k)
          (filter (\<lambda>h. history_user h = user_id u) (PlayHistory_objects st))) = plays_of st u k" for k
    by (simp add: plays_of_def conj_commute)
  then show ?thesis by (simp add: most_played_def Let_def)
qed

lemma plays_of_pos_iff:
  "0 < plays_of st u k \<longleftrightarrow>
     k \<in> set (map history_song (filter (\<lambda>h. history_user h = user_id u) (PlayHistory_objects st)))"
  by (auto simp: plays_of_def filter_empty_conv)

lemma distinct_map_same_set:
  assumes "distinct (map f xs)" and "set ys = set xs" and "length ys = length xs"
  shows "distinct (map f ys)"
proof -
  have "card (set (map f ys)) = card (set (map f xs))" using assms(2) by simp
  also have "\<dots> = length (map f xs)" by (rule distinct_card[OF assms(1)])
  also have "\<dots> = length (map f ys)" using assms(3) by simp
  finally show ?thesis by (rule card_distinct)
qed

lemma sorted_desc_sort_key:
  "sorted_wrt (\<lambda>a b. snd b \<le> snd a) (sort_key (\<lambda>(k, c). - int c) (xs :: (nat \<times> nat) list))"
proof -
  have "sorted (map (\<lambda>(k, c). - int c) (sort_key (\<lambda>(k, c). - int c) xs))"
    by (rule sorted_sort_key)
  then have "sorted_wrt (\<lambda>a b. (\<lambda>(k, c). - int c) a \<le> (\<lambda>(k, c). - int c) b)
               (sort_key (\<lambda>(k, c). - int c) xs)"
    by (simp add: sorted_map)
  then show ?thesis
    by (rule sorted_wrt_mono_rel[rotated]) auto
qed

lemma take_top:
  assumes "sorted_wrt (\<lambda>a b. snd b \<le> snd a) xs" and "x \<in> set xs" and "x \<notin> set (take n xs)"
  shows "length (take n xs) = n \<and> (\<forall>y \<in> set (take n xs). snd x \<le> snd y)"
proof -
  have xs: "xs = take n xs @ drop n xs" by simp
  from assms(2,3) have d: "x \<in> set (drop n xs)"
    by (metis Un_iff set_append xs)
  then have "n < length xs" by (cases "n < length xs") auto
  then have l: "length (take n xs) = n" by simp
  from assms(1) have "sorted_wrt (\<lambda>a b. snd b \<le> snd a) (take n xs @ drop n xs)" by simp
  then have "\<forall>y \<in> set (take n xs). \<forall>z \<in> set (drop n xs). snd z \<le> snd y"
    unfolding sorted_wrt_append by blast
  with d l show ?thesis by blast
qed

lemma most_played_properties:
  fixes rank st u
  defines "res \<equiv> most_played rank st u"
  shows "length res \<le> 10"
    and "distinct (map fst res)"
    and "\<forall>(k, c) \<in> set res. c = plays_of st u k \<and> 0 < c"
    and "sorted_wrt (\<lambda>a b. snd b \<le> snd a) res"
    and "\<forall>k. 0 < plays_of st u k \<and> k \<notin> fst ` set res \<longrightarrow>
           length res = 10 \<and> (\<forall>(k', c') \<in> set res. plays_of st u k \<le> c')"
proof -
  define ks where "ks = sort (remdups (map history_song
      (filter (\<lambda>h. history_user h = user_id u) (PlayHistory_objects st))))"
  define G where "G = map (\<lambda>k. (k, plays_of st u k)) ks"
  define S where "S = sort_key (\<lambda>(k, c). - int c)
      (sort_key (\<lambda>(k, c). rank (PlayHistory_objects st) k) G)"
  have res: "res = take 10 S"
    by (simp add: res_def most_played_unfold S_def G_def ks_def)
  have ks: "distinct ks" "\<And>k. k \<in> set ks \<longleftrightarrow> 0 < plays_of st u k"
    by (simp_all add: ks_def plays_of_pos_iff)
  have G1: "map fst G = ks" by (simp add: G_def comp_def)
  have setS: "set S = set G" and lenS: "length S = length G" by (simp_all add: S_def)
  have dS: "distinct (map fst S)"
    by (rule distinct_map_same_set[OF _ setS lenS]) (simp add: G1 ks)
  have sS: "sorted_wrt (\<lambda>a b. snd b \<le> snd a) S"
    unfolding S_def by (rule sorted_desc_sort_key)
  have inS: "(k, c) \<in> set S \<longleftrightarrow> 0 < plays_of st u k \<and> c = plays_of st u k" for k c
    unfolding setS G_def using ks(2) by auto
  show "length res \<le> 10" by (simp add: res)
  show "distinct (map fst res)"
    unfolding res using dS by (simp add: take_map[symmetric])
  show "\<forall>(k, c) \<in> set res. c = plays_of st u k \<and> 0 < c"
    unfolding res using inS by (auto dest: in_set_takeD)
  show "sorted_wrt (\<lambda>a b. snd b \<le> snd a) res"
    unfolding res using sS by (rule sorted_wrt_take)
  show "\<forall>k. 0 < plays_of st u k \<and> k \<notin> fst ` set res \<longrightarrow>
           length res = 10 \<and> (\<forall>(k', c') \<in> set res. plays_of st u k \<le> c')"
  proof (intro allI impI)
    fix k assume a: "0 < plays_of st u k \<and> k \<notin> fst ` set res"
    then have 1: "(k, plays_of st u k) \<in> set S" by (simp add: inS)
    from a have 2: "(k, plays_of st u k) \<notin> set (take 10 S)"
      unfolding res by force
    from take_top[OF sS 1 2]
    show "length res = 10 \<and> (\<forall>(k', c') \<in> set res. plays_of st u k \<le> c')"
      unfolding res by auto
  qed
qed

lemma most_played_songs_found:
  assumes "\<forall>(k, c) \<in> set items. get_song st k \<noteq> None"
  shows "\<exists>songs. most_played_songs st items = Inr songs
           \<and> map (\<lambda>(s, c). (pk s, c)) songs = items"
  using assms
proof (induction items)
  case Nil
  then show ?case by simp
next
  case (Cons item items)
  obtain k c where item: "item = (k, c)" by (cases item)
  from Cons.prems item obtain s where s: "get_song st k = Some s" by auto
  then have pk: "pk s = k" using get_song_Some by blast
  from Cons.IH Cons.prems obtain songs where
    r: "most_played_songs st items = Inr songs" "map (\<lambda>(s, c). (pk s, c)) songs = items"
    by auto
  show ?case by (simp add: item s r pk)
qed

lemma user_stats_lists_most_played:
  assumes "\<forall>h \<in> set (PlayHistory_objects st). get_song st (history_song h) \<noteq> None"
  shows "\<exists>ctx. user_stats rank st u = Inr ctx
           \<and> map (\<lambda>(s, c). (pk s, c)) (most_played_list ctx) = most_played rank st u"
proof -
  have "get_song st k \<noteq> None" if "(k, c) \<in> set (most_played rank st u)" for k c
  proof -
    from that most_played_properties(3)[where rank = rank and st = st and u = u] have "0 < plays_of st u k" by auto
    then obtain h where "h \<in> set (PlayHistory_objects st)" "history_song h = k"
      by (auto simp: plays_of_pos_iff)
    with assms show ?thesis by auto
  qed
  then have "\<forall>(k, c) \<in> set (most_played rank st u). get_song st k \<noteq> None" by auto
  from most_played_songs_found[OF this] obtain songs where
    "most_played_songs st (most_played rank st u) = Inr songs"
    "map (\<lambda>(s, c). (pk s, c)) songs = most_played rank st u"
    by blast
  then show ?thesis by (simp add: user_stats_def)
qed

lemma sort_key_unique:
  assumes d: "distinct (map f xs)" and s: "sorted (map f ys)"
    and e: "set ys = set xs" and l: "length ys = length xs"
  shows "sort_key f xs = ys"
proof -
  have dy: "distinct (map f ys)" by (rule distinct_map_same_set[OF d e l])
  have dz: "distinct (map f (sort_key f xs))"
    by (rule distinct_map_same_set[OF d]) simp_all
  have "map f (sort_key f xs) = map f ys"
    by (rule sorted_distinct_set_unique) (use dy dz s e in simp_all)
  moreover have "inj_on f (set (sort_key f xs) \<union> set ys)"
    using d e by (simp add: distinct_map)
  ultimately show ?thesis by (rule map_inj_on)
qed


lemma most_played_example:
  "most_played rank stats_db alice = [(2, 5), (1, 3), (3, 1)]"
proof -
  let ?f = "\<lambda>(k :: nat, c :: nat). - int c"
  let ?r = "\<lambda>(k :: nat, c :: nat). rank (PlayHistory_objects stats_db) k"
  let ?G = "[(1, 3), (2, 5), (3, 1)] :: (nat \<times> nat) list"
  have G: "map (\<lambda>k. (k, plays_of stats_db alice k))
             (sort (remdups (map history_song
                (filter (\<lambda>h. history_user h = user_id alice) (PlayHistory_objects stats_db)))))
           = ?G"
    by code_simp
  have e: "set (sort_key ?r ?G) = set ?G" by (rule set_sort)
  have l: "length (sort_key ?r ?G) = length ?G" by (rule length_sort)
  have "distinct (map ?f ?G)" by simp
  then have d: "distinct (map ?f (sort_key ?r ?G))"
    using e l by (rule distinct_map_same_set)
  have "sort_key ?f (sort_key ?r ?G) = [(2, 5), (1, 3), (3, 1)]"
  proof (rule sort_key_unique[OF d])
    show "sorted (map ?f [(2, 5), (1, 3), (3, 1)])" by simp
    show "set [(2, 5), (1, 3), (3, 1)] = set (sort_key ?r ?G)" unfolding e by auto
    show "length [(2, 5), (1, 3), (3, 1)] = length (sort_key ?r ?G)" unfolding l by simp
  qed
  then show ?thesis
    unfolding most_played_unfold G by simp
qed

text \<open>
  C4 (as the code has it). The most-played query of \<open>user_stats\<close> has no limit
  parameter: it returns at most ten groups. Whatever order the engine gives to equal
  counts: each group is a distinct song of the user's plays with the number of the
  user's \<open>PlayHistory\<close> rows of that song; the groups are in descending order of that
  number; a played song that is left out is left out only when ten groups with at
  least as many plays are returned; and when every play refers to a song of the store,
  \<open>user_stats\<close> lists the songs of these groups, in this order, with these counts.
\<close>

theorem most_played_counts_descending:
  "length (most_played rank st u) \<le> 10
   \<and> distinct (map fst (most_played rank st u))
   \<and> (\<forall>(k, c) \<in> set (most_played rank st u). c = plays_of st u k \<and> 0 < c)
   \<and> sorted_wrt (\<lambda>a b. snd b \<le> snd a) (most_played rank st u)
   \<and> (\<forall>k. 0 < plays_of st u k \<and> k \<notin> fst ` set (most_played rank st u) \<longrightarrow>
         length (most_played rank st u) = 10
         \<and> (\<forall>(k', c') \<in> set (most_played rank st u). plays_of st u k \<le> c'))
   \<and> ((\<forall>h \<in> set (PlayHistory_objects st). get_song st (history_song h) \<noteq> None) \<longrightarrow>
        (\<exists>ctx. user_stats rank st u = Inr ctx
           \<and> map (\<lambda>(s, c). (pk s, c)) (most_played_list ctx) = most_played rank st u))"
  using most_played_properties[where rank = rank and st = st and u = u] user_stats_lists_most_played[where st = st and rank = rank and u = u]
  by blast

theorem most_played_counts_descending_witness:
  "(\<forall>rank. most_played rank stats_db alice = [(2, 5), (1, 3), (3, 1)])
   \<and> (\<exists>ctx. user_stats rank_descending stats_db alice = Inr ctx
         \<and> map (\<lambda>(s, c). (pk s, c)) (most_played_list ctx) = [(2, 5), (1, 3), (3, 1)])"
proof -
  have fk: "\<forall>h \<in> set (PlayHistory_objects stats_db). get_song stats_db (history_song h) \<noteq> None"
    by (simp add: stats_db_def demo_db_def play_row_def get_song_def airbag_def bones_def
        creep_def)
  from most_played_counts_descending [where rank = rank_descending and st = stats_db and u = alice] fk
  have "\<exists>ctx. user_stats rank_descending stats_db alice = Inr ctx
          \<and> map (\<lambda>(s, c). (pk s, c)) (most_played_list ctx)
              = most_played rank_descending stats_db alice"
    by blast
  then show ?thesis by (simp add: most_played_example)
qed

text \<open>
  On the example history every engine returns the three groups, where a limit of two
  would leave two. Song 1 and song 2 with one play each: an engine that gives equal
  counts by descending key lists song 2 first when song 2 is the more recent play and
  also when song 1 is; the ordering the specification words puts the more recent play
  first, song 1 in the second case.
\<close>

theorem most_played_limit_and_ties:
  "(\<forall>rank. most_played rank stats_db alice = [(2, 5), (1, 3), (3, 1)])
   \<and> most_played_spec stats_db alice 2 = [(2, 5), (1, 3)]
   \<and> most_played rank_descending tie_db alice = [(2, 1), (1, 1)]
   \<and> most_played rank_descending tie_rev_db alice = [(2, 1), (1, 1)]
   \<and> latest_play tie_rev_db alice 1 = Some 200
   \<and> latest_play tie_rev_db alice 2 = Some 100
   \<and> most_played_spec tie_rev_db alice 10 = [(1, 1), (2, 1)]"
proof -
  have 1: "most_played_spec stats_db alice 2 = [(2, 5), (1, 3)]" by code_simp
  have 2: "most_played rank_descending tie_db alice = [(2, 1), (1, 1)]" by code_simp
  have 3: "most_played rank_descending tie_rev_db alice = [(2, 1), (1, 1)]" by code_simp
  have 4: "latest_play tie_rev_db alice 1 = Some 200" "latest_play tie_rev_db alice 2 = Some 100"
    by code_simp+
  have 5: "most_played_spec tie_rev_db alice 10 = [(1, 1), (2, 1)]" by code_simp
  from most_played_example 1 2 3 4 5 show ?thesis by blast
qed

end
